theory Spec2Isabelle
  imports Complex_Main "HOL-Library.Word"
begin

unbundle bit_operations_syntax

section \<open>The generic linked list (list.c)\<close>

text \<open>
  A \<open>struct list_elm\<close> lives in a store of cells addressed by natural numbers; a C
  pointer is an \<open>addr option\<close> with \<open>None\<close> for \<open>NULL\<close>.  The store is a total
  function together with the allocation mark \<open>brk\<close>: \<open>alloc\<close> hands out the cell at
  the mark, whose previous content is whatever the store holds there.  The mutex of the
  list is not modelled (every operation is taken as atomic).
\<close>

type_synonym addr = nat

record list_elm =
  elm_ptr :: nat
  elm_priority :: int
  elm_prev :: "addr option"
  elm_next :: "addr option"

record heap =
  mem :: "addr \<Rightarrow> list_elm"
  brk :: addr

record linked_list =
  l_length :: nat
  l_head :: "addr option"
  l_tail :: "addr option"

definition alloc :: "heap \<Rightarrow> addr \<times> heap" where
  "alloc s = (brk s, s\<lparr>brk := Suc (brk s)\<rparr>)"

definition upd :: "heap \<Rightarrow> addr \<Rightarrow> (list_elm \<Rightarrow> list_elm) \<Rightarrow> heap" where
  "upd s a f = s\<lparr>mem := (mem s)(a := f (mem s a))\<rparr>"

definition list_init :: "linked_list" where
  "list_init = \<lparr>l_length = 0, l_head = None, l_tail = None\<rparr>"

text \<open>\<open>list_push\<close>, statement by statement.\<close>

definition list_push :: "linked_list \<times> heap \<Rightarrow> nat \<Rightarrow> linked_list \<times> heap" where
  "list_push ls p =
     (let (l, s0) = ls;
          (e, s1) = alloc s0;
          s2 = upd s1 e (\<lambda>x. x\<lparr>elm_ptr := p, elm_prev := l_tail l, elm_next := None\<rparr>);
          s3 = (case l_tail l of
                  Some t \<Rightarrow> upd s2 t (\<lambda>x. x\<lparr>elm_next := Some e\<rparr>)
                | None \<Rightarrow> s2);
          (l1, s4) = (case l_head l of
                  Some h \<Rightarrow> (l, upd s3 h (\<lambda>x. x\<lparr>elm_prev := Some e\<rparr>))
                | None \<Rightarrow> (l\<lparr>l_head := Some e\<rparr>, s3))
      in (l1\<lparr>l_tail := Some e, l_length := Suc (l_length l1)\<rparr>, s4))"

text \<open>
  The search loop of \<open>list_insert\<close>:
  \<^verbatim>\<open>for (d = l->head; d && d->priority < prio; d = d->next);\<close>
  It follows \<open>next\<close> pointers and need not end on a cyclic store, so it is a partial
  function: \<open>None\<close> is "does not return", \<open>Some d\<close> is the pointer the loop stops at.
\<close>

partial_function (option) list_insert_search :: "heap \<Rightarrow> int \<Rightarrow> addr option \<Rightarrow> addr option option" where
  "list_insert_search s prio d =
     (case d of
        None \<Rightarrow> Some None
      | Some a \<Rightarrow>
          if elm_priority (mem s a) < prio
          then list_insert_search s prio (elm_next (mem s a))
          else Some (Some a))"

declare list_insert_search.simps [code]

definition list_insert :: "linked_list \<times> heap \<Rightarrow> int \<Rightarrow> nat \<Rightarrow> (linked_list \<times> heap) option" where
  "list_insert ls prio p =
     (let (l, s0) = ls;
          (e, s1) = alloc s0;
          s2 = upd s1 e (\<lambda>x. x\<lparr>elm_priority := prio, elm_ptr := p\<rparr>)
      in case list_insert_search s2 prio (l_head l) of
           None \<Rightarrow> None
         | Some d \<Rightarrow>
             (let s3 = upd s2 e (\<lambda>x. x\<lparr>elm_next := d\<rparr>);
                  (l1, s4) =
                    (case d of
                       Some da \<Rightarrow>
                         (let s' = upd s3 e (\<lambda>x. x\<lparr>elm_prev := elm_prev (mem s3 da)\<rparr>)
                          in if d = l_head l
                             then (l\<lparr>l_head := Some e\<rparr>, s')
                             else (l, upd s' da (\<lambda>x. x\<lparr>elm_prev := Some e\<rparr>)))
                     | None \<Rightarrow>
                         (let s' = upd s3 e (\<lambda>x. x\<lparr>elm_prev := l_tail l\<rparr>);
                              (l', s'') =
                                (if l_length l = 0
                                 then (l\<lparr>l_head := Some e\<rparr>, s')
                                 else (case l_tail l of
                                         Some t \<Rightarrow> (l, upd s' t (\<lambda>x. x\<lparr>elm_next := Some e\<rparr>))
                                       | None \<Rightarrow> (l, s')))
                          in (l'\<lparr>l_tail := Some e\<rparr>, s'')))
              in Some (l1\<lparr>l_length := Suc (l_length l1)\<rparr>, s4)))"

text \<open>
  Forward traversal from a pointer, as the \<open>FOREACH\<close> loops of \<open>list_lookup\<close> and
  \<open>list_search\<close> walk it: the addresses visited, in order.
\<close>

partial_function (option) list_cells :: "heap \<Rightarrow> addr option \<Rightarrow> addr list option" where
  "list_cells s d =
     (case d of
        None \<Rightarrow> Some []
      | Some a \<Rightarrow> Option.bind (list_cells s (elm_next (mem s a))) (\<lambda>as. Some (a # as)))"

declare list_cells.simps [code]

definition list_contents :: "linked_list \<times> heap \<Rightarrow> nat list option" where
  "list_contents ls = map_option (map (\<lambda>a. elm_ptr (mem (snd ls) a))) (list_cells (snd ls) (l_head (fst ls)))"

text \<open>
  The well-formedness of the doubly linked list: the head has no predecessor, the tail
  has no successor, and every cell reached from the head that has a successor is the
  predecessor of that successor.
\<close>

fun links_ok :: "heap \<Rightarrow> addr list \<Rightarrow> bool" where
  "links_ok s (a # b # as) = (elm_prev (mem s b) = Some a \<and> links_ok s (b # as))"
| "links_ok s [a] = True"
| "links_ok s [] = True"

definition list_wf :: "linked_list \<times> heap \<Rightarrow> bool" where
  "list_wf ls =
     (let (l, s) = ls
      in (case l_head l of None \<Rightarrow> True | Some h \<Rightarrow> elm_prev (mem s h) = None) \<and>
         (case l_tail l of None \<Rightarrow> True | Some t \<Rightarrow> elm_next (mem s t) = None) \<and>
         (case list_cells s (l_head l) of None \<Rightarrow> False | Some as \<Rightarrow> links_ok s as))"

text \<open>A store of zeroed cells with nothing allocated.\<close>

definition heap0 :: heap where
  "heap0 = \<lparr>mem = (\<lambda>_. \<lparr>elm_ptr = 0, elm_priority = 0, elm_prev = None, elm_next = None\<rparr>), brk = 0\<rparr>"

section \<open>Sample value remapping (mapping.c)\<close>

text \<open>
  The enumerations of \<open>mapping.h\<close>.  A C enumeration can hold a value outside its
  enumerators, which the \<open>default\<close> branches of \<open>mapping_update\<close> catch; the \<open>_OTHER\<close>
  constructors stand for such values.
\<close>

datatype mapping_type =
  MAPPING_TYPE_DATA | MAPPING_TYPE_STATS | MAPPING_TYPE_HDR | MAPPING_TYPE_TS | MAPPING_TYPE_OTHER

datatype mapping_stats_type =
  MAPPING_STATS_TYPE_TOTAL | MAPPING_STATS_TYPE_LAST | MAPPING_STATS_TYPE_LOWEST |
  MAPPING_STATS_TYPE_HIGHEST | MAPPING_STATS_TYPE_MEAN | MAPPING_STATS_TYPE_VAR |
  MAPPING_STATS_TYPE_STDDEV | MAPPING_STATS_TYPE_OTHER

datatype mapping_hdr_id =
  MAPPING_HDR_SEQUENCE | MAPPING_HDR_LENGTH | MAPPING_HDR_ID | MAPPING_HDR_FORMAT | MAPPING_HDR_OTHER

datatype mapping_ts_id =
  MAPPING_TS_ORIGIN | MAPPING_TS_RECEIVED | MAPPING_TS_SEND

datatype sample_data_format = SAMPLE_DATA_FORMAT_FLOAT | SAMPLE_DATA_FORMAT_INT

text \<open>
  \<open>struct mapping_entry\<close>.  Its declaration is not among the sources, so every member
  that \<open>mapping_update\<close> reads is a field of its own: the results below hold whether or
  not \<open>stats\<close>, \<open>hdr\<close>, \<open>ts\<close> and \<open>data\<close> share storage.
\<close>

record mapping_entry =
  me_length :: int
  me_offset :: int
  me_type :: mapping_type
  me_stats_id :: nat
  me_stats_type :: mapping_stats_type
  me_hdr_id :: mapping_hdr_id
  me_ts_id :: mapping_ts_id
  me_data_offset :: int

text \<open>
  A slot of \<open>sample::data\<close> is a union of a float \<open>f\<close> and an integer \<open>i\<close>; the type
  \<open>'f\<close> of floating-point values is left open.  A histogram is given by the values
  \<open>mapping_update\<close> reads from it: the members \<open>total\<close>, \<open>last\<close>, \<open>highest\<close>, \<open>lowest\<close>
  and the results of \<open>hist_mean\<close>, \<open>hist_stddev\<close>, \<open>hist_var\<close>, each as the float stored.
\<close>

datatype 'f val = F 'f | I int

record timespec =
  tv_sec :: int
  tv_nsec :: int

record 'f hist =
  h_total :: 'f
  h_last :: 'f
  h_highest :: 'f
  h_lowest :: 'f
  h_mean :: 'f
  h_stddev :: 'f
  h_var :: 'f

text \<open>
  \<open>struct sample\<close>.  \<open>s_data\<close> is the flexible array member together with the memory
  around it, indexed by any integer: \<open>mapping_update\<close> checks only \<open>len + off\<close> against
  the capacity before it writes.  \<open>s_format\<close> is the 64-bit field of data-format bits.
\<close>

record 'f sample =
  s_sequence :: int
  s_length :: int
  s_capacity :: int
  s_id :: int
  s_format :: "64 word"
  s_ts_origin :: timespec
  s_ts_received :: timespec
  s_data :: "int \<Rightarrow> 'f val"

text \<open>
  Modelled from the spec: \<open>sample_set_data_format\<close> and \<open>sample_get_data_format\<close> of
  \<open>sample.h\<close>, which is not among the sources.  Each slot carries its number
  representation; bit \<open>idx\<close> of the format field is set for an integer and clear for a
  float, and an index outside the 64 bits changes nothing and reads as float.
\<close>

definition sample_set_data_format :: "'f sample \<Rightarrow> int \<Rightarrow> sample_data_format \<Rightarrow> 'f sample" where
  "sample_set_data_format s idx fmt =
     (if 0 \<le> idx \<and> idx < 64
      then (case fmt of
              SAMPLE_DATA_FORMAT_FLOAT \<Rightarrow> s\<lparr>s_format := unset_bit (nat idx) (s_format s)\<rparr>
            | SAMPLE_DATA_FORMAT_INT \<Rightarrow> s\<lparr>s_format := set_bit (nat idx) (s_format s)\<rparr>)
      else s)"

definition sample_get_data_format :: "'f sample \<Rightarrow> int \<Rightarrow> sample_data_format" where
  "sample_get_data_format s idx =
     (if 0 \<le> idx \<and> idx < 64 \<and> bit (s_format s) (nat idx)
      then SAMPLE_DATA_FORMAT_INT else SAMPLE_DATA_FORMAT_FLOAT)"

definition set_data :: "'f sample \<Rightarrow> int \<Rightarrow> 'f val \<Rightarrow> 'f sample" where
  "set_data s idx v = s\<lparr>s_data := (s_data s)(idx := v)\<rparr>"

text \<open>
  The four \<open>case\<close> blocks of the outer \<open>switch\<close> of \<open>mapping_update\<close>.  Each takes the
  remapped sample and the running offset \<open>off\<close>.  The block for
  \<open>MAPPING_TYPE_STATS\<close> yields \<open>None\<close> where the inner \<open>switch\<close> returns \<open>-1\<close> and
  otherwise the sample and the offset with which control leaves the inner \<open>switch\<close>.
\<close>

definition update_stats ::
  "mapping_entry \<Rightarrow> 'f sample \<Rightarrow> int \<Rightarrow> (nat \<Rightarrow> 'f hist) \<Rightarrow> ('f sample \<times> int) option" where
  "update_stats me remapped off s =
     (let h = s (me_stats_id me)
      in case me_stats_type me of
           MAPPING_STATS_TYPE_TOTAL \<Rightarrow>
             Some (set_data (sample_set_data_format remapped off SAMPLE_DATA_FORMAT_INT) off (F (h_total h)), off + 1)
         | MAPPING_STATS_TYPE_LAST \<Rightarrow> Some (set_data remapped off (F (h_last h)), off + 1)
         | MAPPING_STATS_TYPE_HIGHEST \<Rightarrow> Some (set_data remapped off (F (h_highest h)), off + 1)
         | MAPPING_STATS_TYPE_LOWEST \<Rightarrow> Some (set_data remapped off (F (h_lowest h)), off + 1)
         | MAPPING_STATS_TYPE_MEAN \<Rightarrow> Some (set_data remapped off (F (h_mean h)), off + 1)
         | MAPPING_STATS_TYPE_STDDEV \<Rightarrow> Some (set_data remapped off (F (h_stddev h)), off + 1)
         | MAPPING_STATS_TYPE_VAR \<Rightarrow> Some (set_data remapped off (F (h_var h)), off + 1)
         | MAPPING_STATS_TYPE_OTHER \<Rightarrow> None)"

definition update_ts :: "mapping_entry \<Rightarrow> 'f sample \<Rightarrow> 'f sample \<Rightarrow> int \<Rightarrow> int \<times> 'f sample" where
  "update_ts me remapped original off =
     (case (case me_ts_id me of
              MAPPING_TS_RECEIVED \<Rightarrow> Some (s_ts_received original)
            | MAPPING_TS_ORIGIN \<Rightarrow> Some (s_ts_origin original)
            | MAPPING_TS_SEND \<Rightarrow> None) of
        None \<Rightarrow> (- 1, remapped)
      | Some ts \<Rightarrow>
          (let r1 = sample_set_data_format remapped off SAMPLE_DATA_FORMAT_INT;
               r2 = sample_set_data_format r1 (off + 1) SAMPLE_DATA_FORMAT_INT;
               r3 = set_data r2 off (I (tv_sec ts));
               r4 = set_data r3 (off + 1) (I (tv_nsec ts))
           in (0, r4)))"

definition update_hdr :: "mapping_entry \<Rightarrow> 'f sample \<Rightarrow> 'f sample \<Rightarrow> int \<Rightarrow> int \<times> 'f sample" where
  "update_hdr me remapped original off =
     (let r1 = sample_set_data_format remapped off SAMPLE_DATA_FORMAT_INT
      in case me_hdr_id me of
           MAPPING_HDR_LENGTH \<Rightarrow> (0, set_data r1 off (I (s_length original)))
         | MAPPING_HDR_SEQUENCE \<Rightarrow> (0, set_data r1 off (I (s_sequence original)))
         | MAPPING_HDR_ID \<Rightarrow> (0, set_data r1 off (I (s_id original)))
         | MAPPING_HDR_FORMAT \<Rightarrow> (0, set_data r1 off (I (uint (s_format original))))
         | MAPPING_HDR_OTHER \<Rightarrow> (- 1, r1))"

text \<open>One pass of the \<open>for\<close> loop of the \<open>MAPPING_TYPE_DATA\<close> block, at index \<open>j\<close>.\<close>

definition update_data_step :: "'f sample \<Rightarrow> 'f \<Rightarrow> 'f sample \<times> int \<Rightarrow> int \<Rightarrow> 'f sample \<times> int" where
  "update_data_step original zero ro j =
     (let (remapped, off) = ro
      in if j \<ge> s_length original
         then (set_data (sample_set_data_format remapped off SAMPLE_DATA_FORMAT_FLOAT) off (F zero), off + 1)
         else (set_data (sample_set_data_format remapped off (sample_get_data_format original j)) off
                 (s_data original j), off + 1))"

definition update_data ::
  "mapping_entry \<Rightarrow> 'f sample \<Rightarrow> 'f sample \<Rightarrow> 'f \<Rightarrow> int \<Rightarrow> int \<Rightarrow> int \<times> 'f sample" where
  "update_data me remapped original zero len off =
     (0, fst (foldl (update_data_step original zero) (remapped, off)
                [me_data_offset me .. len + me_data_offset me - 1]))"

text \<open>
  \<open>mapping_update\<close>: the returned integer and the remapped sample as the call leaves it.
  \<open>zero\<close> is the float \<open>0\<close>.  The block for \<open>MAPPING_TYPE_STATS\<close> ends without a
  \<open>break\<close>, so control goes on into the block for \<open>MAPPING_TYPE_TS\<close> with the offset
  already advanced.  A type outside the four enumerators matches no \<open>case\<close>.
\<close>

definition mapping_update ::
  "mapping_entry \<Rightarrow> 'f sample \<Rightarrow> 'f sample \<Rightarrow> (nat \<Rightarrow> 'f hist) \<Rightarrow> 'f \<Rightarrow> int \<times> 'f sample" where
  "mapping_update me remapped original s zero =
     (let len = (if me_length me = 0 then s_length original else me_length me);
          off = me_offset me
      in if len + off > s_capacity remapped then (- 1, remapped)
         else
           (let r0 = (if len + off > s_length remapped
                      then remapped\<lparr>s_length := len + off\<rparr> else remapped)
            in case me_type me of
                 MAPPING_TYPE_STATS \<Rightarrow>
                   (case update_stats me r0 off s of
                      None \<Rightarrow> (- 1, r0)
                    | Some (r1, off1) \<Rightarrow> update_ts me r1 original off1)
               | MAPPING_TYPE_TS \<Rightarrow> update_ts me r0 original off
               | MAPPING_TYPE_HDR \<Rightarrow> update_hdr me r0 original off
               | MAPPING_TYPE_DATA \<Rightarrow> update_data me r0 original zero len off
               | MAPPING_TYPE_OTHER \<Rightarrow> (0, r0)))"

text \<open>An example call: a stats entry of length 1 at offset 0 into a remapped sample of capacity 8.\<close>

definition stats_entry :: mapping_entry where
  "stats_entry =
     \<lparr>me_length = 1, me_offset = 0, me_type = MAPPING_TYPE_STATS, me_stats_id = 0,
      me_stats_type = MAPPING_STATS_TYPE_LAST, me_hdr_id = MAPPING_HDR_SEQUENCE,
      me_ts_id = MAPPING_TS_RECEIVED, me_data_offset = 0\<rparr>"

definition blank_sample :: "real sample" where
  "blank_sample =
     \<lparr>s_sequence = 7, s_length = 0, s_capacity = 8, s_id = 0, s_format = 0,
      s_ts_origin = \<lparr>tv_sec = 100, tv_nsec = 200\<rparr>,
      s_ts_received = \<lparr>tv_sec = 300, tv_nsec = 400\<rparr>,
      s_data = (\<lambda>_. I 0)\<rparr>"

definition some_stats :: "nat \<Rightarrow> real hist" where
  "some_stats = (\<lambda>_. \<lparr>h_total = 1, h_last = 2, h_highest = 3, h_lowest = 4,
                        h_mean = 5, h_stddev = 6, h_var = 7\<rparr>)"

section \<open>Configuration parser: paths (cfg.c)\<close>

text \<open>
  The settings of one path group, as the lookups of \<open>config_parse_path\<close> see them
  (\<open>None\<close>: the setting is absent and the lookup leaves its target untouched).
\<close>

record config_setting =
  cfg_in :: "string option"
  cfg_out :: "string option"
  cfg_enabled :: "bool option"
  cfg_reverse :: "bool option"
  cfg_rate :: "real option"

text \<open>\<open>struct path\<close>, with the members \<open>config_parse_path\<close> writes; nodes are named by their address.\<close>

record path_cfg =
  pc_in :: "addr option"
  pc_out :: "addr option"
  pc_rate :: real
  pc_cfg :: "config_setting option"

text \<open>
  The memory of path structures, one cell per address: a cell is not allocated,
  allocated with no content written yet, or holds a structure.  \<open>malloc\<close> returns the
  next cell, or \<open>NULL\<close> when no memory is left (\<open>ps_avail\<close> counts the allocations that
  can still succeed); \<open>free\<close> gives a cell back.
\<close>

datatype 'a cell = Unallocated | Uninitialised | Cell 'a

record path_store =
  ps_cells :: "path_cfg cell list"
  ps_avail :: nat

definition malloc :: "path_store \<Rightarrow> addr option \<times> path_store" where
  "malloc st =
     (if ps_avail st = 0 then (None, st)
      else (Some (length (ps_cells st)),
            st\<lparr>ps_cells := ps_cells st @ [Uninitialised], ps_avail := ps_avail st - 1\<rparr>))"

definition free :: "path_store \<Rightarrow> addr \<Rightarrow> path_store" where
  "free st a = st\<lparr>ps_cells := (ps_cells st)[a := Unallocated], ps_avail := Suc (ps_avail st)\<rparr>"

definition store :: "path_store \<Rightarrow> addr \<Rightarrow> path_cfg \<Rightarrow> path_store" where
  "store st a v = st\<lparr>ps_cells := (ps_cells st)[a := Cell v]\<rparr>"

definition load :: "path_store \<Rightarrow> addr \<Rightarrow> path_cfg cell" where
  "load st a = (if a < length (ps_cells st) then ps_cells st ! a else Unallocated)"

text \<open>The structure after \<^verbatim>\<open>memset(path, 0, sizeof(struct path))\<close>.\<close>

definition zero_path :: path_cfg where
  "zero_path = \<lparr>pc_in = None, pc_out = None, pc_rate = 0, pc_cfg = None\<rparr>"

text \<open>
  Modelled from the spec: \<open>node_lookup_name\<close> (\<open>node.c\<close>) and the macro \<open>list_add\<close>
  (\<open>utils.h\<close>), neither among the sources.  The nodes are a mapping from name to node,
  searched in order; \<open>list_add\<close> puts one more element on the list.
\<close>

definition node_lookup_name :: "string \<Rightarrow> (string \<times> addr) list \<Rightarrow> addr option" where
  "node_lookup_name name nodes = map_of nodes name"

definition list_add :: "addr list \<Rightarrow> addr \<Rightarrow> addr list" where
  "list_add l elm = elm # l"

text \<open>
  \<open>error\<close> and \<open>cerror\<close> end the process; each call is an error value here.
\<close>

datatype cfg_error =
  Failed_to_allocate | Missing_input_node | Missing_output_node |
  Invalid_input_node | Invalid_output_node

text \<open>
  \<open>config_parse_path\<close>: from the store and the path list to the new store and list.
\<close>

definition config_parse_path ::
  "config_setting \<Rightarrow> path_store \<times> addr list \<Rightarrow> (string \<times> addr) list
   \<Rightarrow> cfg_error + (path_store \<times> addr list)" where
  "config_parse_path cfg sp nodes =
     (let (st0, paths) = sp;
          enabled = True;
          reverse = False
      in case malloc st0 of
           (None, _) \<Rightarrow> Inl Failed_to_allocate
         | (Some path, st1) \<Rightarrow>
             (let p0 = zero_path
              in case cfg_in cfg of
                   None \<Rightarrow> Inl Missing_input_node
                 | Some in_str \<Rightarrow>
              (case cfg_out cfg of
                   None \<Rightarrow> Inl Missing_output_node
                 | Some out_str \<Rightarrow>
              (case node_lookup_name in_str nodes of
                   None \<Rightarrow> Inl Invalid_input_node
                 | Some n_in \<Rightarrow>
              (case node_lookup_name out_str nodes of
                   None \<Rightarrow> Inl Invalid_output_node
                 | Some n_out \<Rightarrow>
                (let p1 = p0\<lparr>pc_in := Some n_in, pc_out := Some n_out\<rparr>;
                     enabled = (case cfg_enabled cfg of None \<Rightarrow> enabled | Some b \<Rightarrow> b);
                     reverse = (case cfg_reverse cfg of None \<Rightarrow> reverse | Some b \<Rightarrow> b);
                     p2 = (case cfg_rate cfg of None \<Rightarrow> p1 | Some r \<Rightarrow> p1\<lparr>pc_rate := r\<rparr>);
                     p3 = p2\<lparr>pc_cfg := Some cfg\<rparr>;
                     st2 = store st1 path p3
                 in if enabled
                    then (let paths1 = list_add paths path
                          in if reverse
                             then (case malloc st2 of
                                     (None, _) \<Rightarrow> Inl Failed_to_allocate
                                   | (Some path_rev, st3) \<Rightarrow>
                                       (let r0 = p3;
                                            r1 = r0\<lparr>pc_in := pc_out p3\<rparr>;
                                            r2 = r1\<lparr>pc_out := pc_in p3\<rparr>;
                                            st4 = store st3 path_rev r2
                                        in Inr (st4, list_add paths1 path_rev)))
                             else Inr (st2, paths1))
                    else Inr (free st2 path, paths)))))))"

text \<open>An example: the path group \<^verbatim>\<open>{ in = "A", out = "B", reverse = true, rate = 2.0 }\<close>.\<close>

definition ab_cfg :: config_setting where
  "ab_cfg = \<lparr>cfg_in = Some ''A'', cfg_out = Some ''B'', cfg_enabled = None,
             cfg_reverse = Some True, cfg_rate = Some 2\<rparr>"

definition ab_nodes :: "(string \<times> addr) list" where
  "ab_nodes = [(''A'', 1), (''B'', 2)]"

definition empty_store :: path_store where
  "empty_store = \<lparr>ps_cells = [], ps_avail = 4\<rparr>"

section \<open>Message paths (path.c)\<close>

text \<open>
  The members of \<open>struct node\<close>, \<open>struct hook\<close> and \<open>struct path\<close> that \<open>path.c\<close>
  reads and writes.  \<open>n_received\<close> of the source node is the write cursor of the
  queue, \<open>n_sent\<close> of a destination its reader cursor, \<open>hk_head\<close> the reader cursor of
  a hook.  The path holds pointers to its nodes: \<open>p_in\<close> and the entries of
  \<open>p_destinations\<close> are addresses, and \<open>p_nodes\<close> is the memory the nodes live in, so
  that a node that is listed twice, or is source and destination at once, is one node.
  The hooks of a path are its own copies.  The queue and the pool are of types \<open>'q\<close>
  and \<open>'p\<close>.
\<close>

datatype hook_type = HOOK_READ | HOOK_WRITE | HOOK_ASYNC

record node =
  n_name :: string
  n_vectorize :: int
  n_received :: int
  n_sent :: int

record hook =
  hk_head :: int
  hk_history :: int

record ('q, 'p) path =
  p_in :: addr
  p_destinations :: "addr list"
  p_nodes :: "addr \<Rightarrow> node"
  p_hooks :: "hook list"
  p_queue :: 'q
  p_pool :: 'p
  p_rate :: real
  p_skipped :: int
  p_overrun :: nat

text \<open>
  The functions \<open>path.c\<close> calls and does not define (\<open>queue.h\<close>, \<open>pool.h\<close>, the hook
  and node layers, \<open>timing.h\<close>) are the components of an environment, so that the
  results on \<open>path.c\<close> hold for any behaviour of them.  A function that fills an array
  and returns a count yields the entries it filled; a function that advances a cursor
  through a pointer yields the new cursor.  The state of everything outside the path
  structure and its nodes (private data of hooks, the network behind the nodes, the
  timer) is the world \<open>'w\<close>; hooks and nodes see the path and leave it as it is.
  \<^item> \<open>queue_get_many q cnt base\<close>: the samples peeked (\<open>available\<close> is their number);
  \<^item> \<open>queue_pull_many q cnt pos\<close>: the samples released, the new cursor, the queue;
  \<^item> \<open>queue_push_many q smps pos\<close>: the number enqueued, the new cursor, the queue;
  \<^item> \<open>pool_put_many pool smps\<close>: the number released and the pool;
  \<^item> \<open>sample_get_many pool cnt\<close>: the samples obtained and the pool;
  \<^item> \<open>hook_run p smps cnt when\<close>: the returned count and the array as the hooks leave it;
  \<^item> \<open>node_read p n smps cnt\<close>, for the node at address \<open>n\<close>: the returned count and
    the array as filled;
  \<^item> \<open>node_write p n smps cnt\<close>, for the node at address \<open>n\<close>: the returned count;
  \<^item> \<open>timerfd_wait\<close>: the number of expirations.
  The calls of \<open>debug\<close>, \<open>info\<close>, \<open>warn\<close> and \<open>perror\<close> only print.
\<close>

record ('s, 'q, 'p, 'w) env =
  queue_get_many :: "'q \<Rightarrow> int \<Rightarrow> int \<Rightarrow> 's list"
  queue_pull_many :: "'q \<Rightarrow> int \<Rightarrow> int \<Rightarrow> 's list \<times> int \<times> 'q"
  queue_push_many :: "'q \<Rightarrow> 's list \<Rightarrow> int \<Rightarrow> int \<times> int \<times> 'q"
  pool_put_many :: "'p \<Rightarrow> 's list \<Rightarrow> int \<times> 'p"
  sample_get_many :: "'p \<Rightarrow> int \<Rightarrow> 's list \<times> 'p"
  hook_run :: "('q, 'p) path \<Rightarrow> 's list \<Rightarrow> int \<Rightarrow> hook_type \<Rightarrow> 'w \<Rightarrow> (int \<times> 's list) \<times> 'w"
  node_read :: "('q, 'p) path \<Rightarrow> addr \<Rightarrow> 's list \<Rightarrow> int \<Rightarrow> 'w \<Rightarrow> (int \<times> 's list) \<times> 'w"
  node_write :: "('q, 'p) path \<Rightarrow> addr \<Rightarrow> 's list \<Rightarrow> int \<Rightarrow> 'w \<Rightarrow> int \<times> 'w"
  timerfd_wait :: "'w \<Rightarrow> nat \<times> 'w"

text \<open>\<open>error\<close> ends the process: each call is an error value.\<close>

datatype path_error = Failed_to_sent | Failed_to_receive

text \<open>
  The body of the loop of \<open>path_write\<close> for the destination at address \<open>a\<close>
  (the \<open>struct node *n\<close> of \<open>list_foreach\<close>).
\<close>

definition path_write_node ::
  "('s, 'q, 'p, 'w) env \<Rightarrow> bool \<Rightarrow> ('q, 'p) path \<times> 'w \<Rightarrow> addr \<Rightarrow> path_error + ('q, 'p) path \<times> 'w" where
  "path_write_node e resend pw a =
     (let (p, w) = pw;
          n = p_nodes p a;
          cnt = n_vectorize n;
          base = (if resend then n_received (p_nodes p (p_in p)) - cnt else n_sent n);
          smps = queue_get_many e (p_queue p) cnt base;
          available = int (length smps)
      in if available = 0 then Inr (p, w)
         else
           (let ((tosend, smps1), w1) = hook_run e p smps available HOOK_WRITE w
            in if tosend = 0 then Inr (p, w1)
               else
                 (let (sent, w2) = node_write e p a smps1 tosend w1
                  in if sent < 0 then Inl Failed_to_sent
                     else if resend then Inr (p, w2)
                     else
                       (let (rel, pos, q1) = queue_pull_many e (p_queue p) sent (n_sent n);
                            (released, pool1) = pool_put_many e (p_pool p) rel
                        in Inr (p\<lparr>p_nodes := (p_nodes p)(a := n\<lparr>n_sent := pos\<rparr>),
                                  p_queue := q1, p_pool := pool1\<rparr>, w2)))))"

fun path_write_loop ::
  "('s, 'q, 'p, 'w) env \<Rightarrow> bool \<Rightarrow> ('q, 'p) path \<times> 'w \<Rightarrow> addr list \<Rightarrow> path_error + ('q, 'p) path \<times> 'w" where
  "path_write_loop e resend pw [] = Inr pw"
| "path_write_loop e resend pw (a # as) =
     (case path_write_node e resend pw a of
        Inl err \<Rightarrow> Inl err
      | Inr pw1 \<Rightarrow> path_write_loop e resend pw1 as)"

definition path_write ::
  "('s, 'q, 'p, 'w) env \<Rightarrow> bool \<Rightarrow> ('q, 'p) path \<times> 'w \<Rightarrow> path_error + ('q, 'p) path \<times> 'w" where
  "path_write e resend pw = path_write_loop e resend pw (p_destinations (fst pw))"

text \<open>
  One pass of the endless loop of \<open>path_run_async\<close>, the send thread: one timer tick.
\<close>

definition path_run_async ::
  "('s, 'q, 'p, 'w) env \<Rightarrow> ('q, 'p) path \<times> 'w \<Rightarrow> path_error + ('q, 'p) path \<times> 'w" where
  "path_run_async e pw =
     (let (p, w) = pw;
          (expir, w1) = timerfd_wait e w;
          p1 = (if expir = 0 then p
                else if expir > 1 then p\<lparr>p_overrun := p_overrun p + expir\<rparr>
                else p)
      in if n_received (p_nodes p1 (p_in p1)) = 0 then Inr (p1, w1)
         else
           (let ((r, smps), w2) = hook_run e p1 [] 0 HOOK_ASYNC w1
            in if r \<noteq> 0 then Inr (p1, w2)
               else path_write e True (p1, w2)))"

text \<open>
  The receive thread \<open>path_run\<close>.  Its local variables \<open>ready\<close> and \<open>smps\<close> live across
  the passes of its loop; a callee that fills \<open>smps\<close> overwrites a prefix of the array.
\<close>

record 's receiver =
  ready :: int
  smps :: "'s list"

definition fill :: "'s list \<Rightarrow> 's list \<Rightarrow> 's list" where
  "fill arr xs = xs @ drop (length xs) arr"

text \<open>The body of the loop over the hooks, for the hook at index \<open>i\<close>.\<close>

definition path_run_hook :: "('s, 'q, 'p, 'w) env \<Rightarrow> ('q, 'p) path \<Rightarrow> nat \<Rightarrow> ('q, 'p) path" where
  "path_run_hook e p i =
     (let h = p_hooks p ! i;
          pull = n_received (p_nodes p (p_in p)) - hk_head h - hk_history h
      in if pull > 0
         then (let (rel, pos, q1) = queue_pull_many e (p_queue p) pull (hk_head h);
                   (released, pool1) = pool_put_many e (p_pool p) rel
               in p\<lparr>p_hooks := (p_hooks p)[i := h\<lparr>hk_head := pos\<rparr>],
                    p_queue := q1, p_pool := pool1\<rparr>)
         else p)"

text \<open>
  One pass of the endless loop of \<open>path_run\<close>, from the sample blocks fetched from the
  pool to the hooks' history and, at rate 0, the send routine.
\<close>

definition path_run ::
  "('s, 'q, 'p, 'w) env \<Rightarrow> ('q, 'p) path \<times> 'w \<times> 's receiver
   \<Rightarrow> path_error + ('q, 'p) path \<times> 'w \<times> 's receiver" where
  "path_run e pwr =
     (let (p, w, r) = pwr;
          cnt = n_vectorize (p_nodes p (p_in p));
          (got, pool1) = sample_get_many e (p_pool p) (cnt - ready r);
          r1 = r\<lparr>ready := ready r + int (length got), smps := fill (smps r) got\<rparr>;
          p1 = p\<lparr>p_pool := pool1\<rparr>;
          ((recv, smps2), w1) = node_read e p1 (p_in p1) (smps r1) (ready r1) w
      in if recv < 0 then Inl Failed_to_receive
         else
           (let ((enqueue, smps3), w2) = hook_run e p1 smps2 recv HOOK_READ w1;
                p2 = (if enqueue \<noteq> recv
                      then p1\<lparr>p_skipped := p_skipped p1 + (recv - enqueue)\<rparr> else p1);
                (enqueued, pos, q1) =
                  queue_push_many e (p_queue p2) (take (nat enqueue) smps3)
                    (n_received (p_nodes p2 (p_in p2)));
                p3 = p2\<lparr>p_queue := q1,
                        p_nodes := (p_nodes p2)(p_in p2 := (p_nodes p2 (p_in p2))\<lparr>n_received := pos\<rparr>)\<rparr>;
                r2 = r1\<lparr>ready := ready r1 - enqueued, smps := smps3\<rparr>;
                p4 = foldl (path_run_hook e) p3 [0 ..< length (p_hooks p3)]
            in if p_rate p4 = 0
               then (case path_write e False (p4, w2) of
                       Inl err \<Rightarrow> Inl err
                     | Inr (p5, w3) \<Rightarrow> Inr (p5, w3, r2))
               else Inr (p4, w2, r2)))"

text \<open>
  The two threads of a path, one pass of one loop after the other in any order: a
  schedule says whose turn it is.  A run yields the state it ends in and the expirations
  that the ticks of the send thread reported; an error ends it.
\<close>

datatype thread = Receive | Send

fun path_threads ::
  "('s, 'q, 'p, 'w) env \<Rightarrow> thread list \<Rightarrow> ('q, 'p) path \<times> 'w \<times> 's receiver
   \<Rightarrow> path_error + (('q, 'p) path \<times> 'w \<times> 's receiver) \<times> nat list" where
  "path_threads e [] pwr = Inr (pwr, [])"
| "path_threads e (Receive # ts) pwr =
     (case path_run e pwr of
        Inl err \<Rightarrow> Inl err
      | Inr pwr1 \<Rightarrow> path_threads e ts pwr1)"
| "path_threads e (Send # ts) pwr =
     (case path_run_async e (fst pwr, fst (snd pwr)) of
        Inl err \<Rightarrow> Inl err
      | Inr (p1, w1) \<Rightarrow>
          (case path_threads e ts (p1, w1, snd (snd pwr)) of
             Inl err \<Rightarrow> Inl err
           | Inr (pwr2, ks) \<Rightarrow> Inr (pwr2, fst (timerfd_wait e (fst (snd pwr))) # ks)))"

text \<open>
  The send routine in resend mode, in the words of the specification: for each
  destination in order, peek up to \<open>vectorize\<close> samples of the queue starting at
  \<open>in.received - vectorize\<close>; if there are any, run \<open>HOOK_WRITE\<close> on them, and if any
  are left, write them to the destination, where a negative return is fatal.  No
  cursor, queue or pool is touched: only the world changes.
\<close>

fun resend_last_vector ::
  "('s, 'q, 'p, 'w) env \<Rightarrow> ('q, 'p) path \<Rightarrow> addr list \<Rightarrow> 'w \<Rightarrow> path_error + 'w" where
  "resend_last_vector e p [] w = Inr w"
| "resend_last_vector e p (a # as) w =
     (let peeked = queue_get_many e (p_queue p) (n_vectorize (p_nodes p a))
                     (n_received (p_nodes p (p_in p)) - n_vectorize (p_nodes p a))
      in if peeked = [] then resend_last_vector e p as w
         else
           (case hook_run e p peeked (int (length peeked)) HOOK_WRITE w of
              ((tosend, kept), w1) \<Rightarrow>
                if tosend = 0 then resend_last_vector e p as w1
                else
                  (case node_write e p a kept tosend w1 of
                     (sent, w2) \<Rightarrow>
                       if sent < 0 then Inl Failed_to_sent
                       else resend_last_vector e p as w2)))"

text \<open>What \<open>path_write\<close> leaves alone in either mode.\<close>

definition path_frame :: "('q, 'p) path \<Rightarrow> ('q, 'p) path \<Rightarrow> bool" where
  "path_frame p p' \<longleftrightarrow>
     p_skipped p' = p_skipped p \<and> p_overrun p' = p_overrun p \<and> p_in p' = p_in p \<and>
     p_destinations p' = p_destinations p \<and> p_rate p' = p_rate p \<and> p_hooks p' = p_hooks p \<and>
     n_received (p_nodes p' (p_in p)) = n_received (p_nodes p (p_in p))"

text \<open>The cursors of a path: the write cursor and the reader cursor of each destination.\<close>

definition cursors :: "('q, 'p) path \<Rightarrow> int \<times> int list" where
  "cursors p = (n_received (p_nodes p (p_in p)), map (\<lambda>a. n_sent (p_nodes p a)) (p_destinations p))"

subsection \<open>An environment after the specification\<close>

text \<open>
  Modelled from the spec: the queue, the pool, the hook chain, the nodes and the rate
  timer (\<open>queue.c\<close>, \<open>pool.c\<close>, \<open>hooks.c\<close>, \<open>node.c\<close>, \<open>timing.c\<close> are not among the
  sources).  A sample is its sequence number.
  \<^item> Queue: a ring of \<open>Q\<close> slots with one writer and several reader cursors.  A slot
    holds a sample and the number of readers that have not passed it yet; a push fits
    as long as the slot at the writer cursor has been passed by every reader, so that
    \<open>pushed \<le> n\<close> is the span that does not overrun the slowest reader; a pull advances
    one reader and hands back the samples that every reader has now passed; a peek reads
    without advancing and stops at the first slot that holds nothing.
  \<^item> Pool: a number of free samples; \<open>acquire\<close> yields up to \<open>n\<close> of them and never
    blocks, \<open>release\<close> takes them back.
  \<^item> Hook chain: each hook of the wanted kind, in priority order, gives a verdict on each
    sample; samples whose verdict is \<open>skip\<close> are discarded and the length of the rest
    is returned.
  \<^item> Nodes: the source delivers the next samples of the input, at most as many as asked
    for; a destination accepts every batch, which is logged under its name.
  \<^item> Timer: each wait reports the next number of expirations.
\<close>

record sim_queue =
  sq_readers :: nat
  sq_slots :: "(nat \<times> nat) list"

definition sq_slot :: "sim_queue \<Rightarrow> int \<Rightarrow> nat" where
  "sq_slot q pos = nat (pos mod int (length (sq_slots q)))"

definition sim_queue_init :: "nat \<Rightarrow> nat \<Rightarrow> sim_queue" where
  "sim_queue_init len readers = \<lparr>sq_readers = readers, sq_slots = replicate len (0, 0)\<rparr>"

fun sim_push_many :: "sim_queue \<Rightarrow> nat list \<Rightarrow> int \<Rightarrow> int \<times> int \<times> sim_queue" where
  "sim_push_many q [] pos = (0, pos, q)"
| "sim_push_many q (s # ss) pos =
     (if sq_slots q = [] \<or> snd (sq_slots q ! sq_slot q pos) \<noteq> 0 then (0, pos, q)
      else (let q1 = q\<lparr>sq_slots := (sq_slots q)[sq_slot q pos := (s, sq_readers q)]\<rparr>;
                (k, pos1, q2) = sim_push_many q1 ss (pos + 1)
            in (k + 1, pos1, q2)))"

fun sim_pull_many :: "sim_queue \<Rightarrow> nat \<Rightarrow> int \<Rightarrow> nat list \<times> int \<times> sim_queue" where
  "sim_pull_many q 0 pos = ([], pos, q)"
| "sim_pull_many q (Suc n) pos =
     (if sq_slots q = [] \<or> snd (sq_slots q ! sq_slot q pos) = 0 then ([], pos, q)
      else (let (s, pending) = sq_slots q ! sq_slot q pos;
                q1 = q\<lparr>sq_slots := (sq_slots q)[sq_slot q pos := (s, pending - 1)]\<rparr>;
                (rel, pos1, q2) = sim_pull_many q1 n (pos + 1)
            in ((if pending = 1 then [s] else []) @ rel, pos1, q2)))"

fun sim_get_many :: "sim_queue \<Rightarrow> nat \<Rightarrow> int \<Rightarrow> nat list" where
  "sim_get_many q 0 base = []"
| "sim_get_many q (Suc n) base =
     (if sq_slots q = [] \<or> snd (sq_slots q ! sq_slot q base) = 0 then []
      else fst (sq_slots q ! sq_slot q base) # sim_get_many q n (base + 1))"

definition sim_acquire :: "nat \<Rightarrow> int \<Rightarrow> nat list \<times> nat" where
  "sim_acquire pool n = (replicate (min (nat n) pool) 0, pool - min (nat n) pool)"

definition sim_release :: "nat \<Rightarrow> nat list \<Rightarrow> int \<times> nat" where
  "sim_release pool xs = (int (length xs), pool + length xs)"

datatype action = ACTION_OK | ACTION_SKIP | ACTION_ERROR | ACTION_STOP

type_synonym sim_hook = "hook_type \<times> (nat \<Rightarrow> action)"

definition sim_hook_process :: "sim_hook list \<Rightarrow> hook_type \<Rightarrow> nat list \<Rightarrow> nat list" where
  "sim_hook_process hooks when xs =
     foldl (\<lambda>ys h. if fst h = when then filter (\<lambda>s. snd h s \<noteq> ACTION_SKIP) ys else ys) xs hooks"

definition sim_hook_run :: "sim_hook list \<Rightarrow> nat list \<Rightarrow> int \<Rightarrow> hook_type \<Rightarrow> int \<times> nat list" where
  "sim_hook_run hooks xs cnt when =
     (let kept = sim_hook_process hooks when (take (nat cnt) xs)
      in (int (length kept), fill xs kept))"

record sim_world =
  sw_input :: "nat list"
  sw_output :: "(string \<times> nat list) list"
  sw_timer :: "nat list"

definition sim_read ::
  "('q, 'p) path \<Rightarrow> addr \<Rightarrow> nat list \<Rightarrow> int \<Rightarrow> sim_world \<Rightarrow> (int \<times> nat list) \<times> sim_world" where
  "sim_read p a xs cnt w =
     (let new = take (nat cnt) (sw_input w)
      in ((int (length new), fill xs new), w\<lparr>sw_input := drop (nat cnt) (sw_input w)\<rparr>))"

definition sim_write ::
  "('q, 'p) path \<Rightarrow> addr \<Rightarrow> nat list \<Rightarrow> int \<Rightarrow> sim_world \<Rightarrow> int \<times> sim_world" where
  "sim_write p a xs cnt w =
     (let batch = take (nat cnt) xs
      in (int (length batch), w\<lparr>sw_output := sw_output w @ [(n_name (p_nodes p a), batch)]\<rparr>))"

definition sim_wait :: "sim_world \<Rightarrow> nat \<times> sim_world" where
  "sim_wait w = (case sw_timer w of [] \<Rightarrow> (1, w) | k # ks \<Rightarrow> (k, w\<lparr>sw_timer := ks\<rparr>))"

definition sim :: "sim_hook list \<Rightarrow> (nat, sim_queue, nat, sim_world) env" where
  "sim hooks =
     \<lparr>queue_get_many = (\<lambda>q cnt base. sim_get_many q (nat cnt) base),
      queue_pull_many = (\<lambda>q cnt pos. sim_pull_many q (nat cnt) pos),
      queue_push_many = sim_push_many,
      pool_put_many = sim_release,
      sample_get_many = sim_acquire,
      hook_run = (\<lambda>p xs cnt when w. (sim_hook_run hooks xs cnt when, w)),
      node_read = sim_read,
      node_write = sim_write,
      timerfd_wait = sim_wait\<rparr>"

text \<open>
  A path from node \<open>A\<close> (at address 0) to node \<open>B\<close> (at address 1) without hooks of
  its own: both nodes with vector length \<open>v\<close>, the write cursor at \<open>received\<close>, the
  cursor of \<open>B\<close> at \<open>sent\<close>, the queue with one reader and the given slots.
\<close>

definition sim_state ::
  "int \<Rightarrow> int \<Rightarrow> int \<Rightarrow> (nat \<times> nat) list \<Rightarrow> nat \<Rightarrow> real \<Rightarrow> int \<Rightarrow> nat \<Rightarrow> (sim_queue, nat) path" where
  "sim_state v received sent slots pool rate skipped overrun =
     \<lparr>p_in = 0,
      p_destinations = [1],
      p_nodes = (\<lambda>a. if a = 0
                      then \<lparr>n_name = ''A'', n_vectorize = v, n_received = received, n_sent = 0\<rparr>
                      else \<lparr>n_name = ''B'', n_vectorize = v, n_received = 0, n_sent = sent\<rparr>),
      p_hooks = [],
      p_queue = \<lparr>sq_readers = 1, sq_slots = slots\<rparr>,
      p_pool = pool,
      p_rate = rate,
      p_skipped = skipped,
      p_overrun = overrun\<rparr>"

text \<open>
  The path after \<open>path_prepare\<close>: a queue of \<open>len\<close> empty slots, a pool of \<open>blocks\<close>
  samples, all cursors and counters at 0.
\<close>

definition sim_path :: "int \<Rightarrow> nat \<Rightarrow> nat \<Rightarrow> real \<Rightarrow> (sim_queue, nat) path" where
  "sim_path v len blocks rate = sim_state v 0 0 (replicate len (0, 0)) blocks rate 0 0"

definition sim_world_init :: "nat list \<Rightarrow> nat list \<Rightarrow> sim_world" where
  "sim_world_init input timer = \<lparr>sw_input = input, sw_output = [], sw_timer = timer\<rparr>"

definition receiver_init :: "int \<Rightarrow> nat receiver" where
  "receiver_init v = \<lparr>ready = 0, smps = replicate (nat v) 0\<rparr>"

text \<open>
  What is compared of a path: its source node and its destinations (read through the
  pointers), its hooks, queue and pool, its rate and its counters.
\<close>

definition snapshot ::
  "('q, 'p) path \<Rightarrow> node \<times> node list \<times> hook list \<times> 'q \<times> 'p \<times> real \<times> int \<times> nat" where
  "snapshot p =
     (p_nodes p (p_in p), map (p_nodes p) (p_destinations p), p_hooks p, p_queue p, p_pool p,
      p_rate p, p_skipped p, p_overrun p)"

text \<open>The outcome of a tick, of a pass of the receive loop and of a run, with the path as compared.\<close>

type_synonym ('q, 'p) view = "node \<times> node list \<times> hook list \<times> 'q \<times> 'p \<times> real \<times> int \<times> nat"

definition observe :: "path_error + ('q, 'p) path \<times> 'w \<Rightarrow> path_error + ('q, 'p) view \<times> 'w" where
  "observe x = (case x of Inl err \<Rightarrow> Inl err | Inr (p, w) \<Rightarrow> Inr (snapshot p, w))"

definition observe_run ::
  "path_error + ('q, 'p) path \<times> 'w \<times> 'r \<Rightarrow> path_error + ('q, 'p) view \<times> 'w \<times> 'r" where
  "observe_run x = (case x of Inl err \<Rightarrow> Inl err | Inr (p, w, r) \<Rightarrow> Inr (snapshot p, w, r))"

definition observe_threads ::
  "path_error + (('q, 'p) path \<times> 'w \<times> 'r) \<times> nat list
   \<Rightarrow> path_error + (('q, 'p) view \<times> 'w \<times> 'r) \<times> nat list" where
  "observe_threads x =
     (case x of Inl err \<Rightarrow> Inl err | Inr ((p, w, r), ks) \<Rightarrow> Inr ((snapshot p, w, r), ks))"

subsection \<open>Example runs\<close>

text \<open>A hook on \<open>HOOK_READ\<close> whose verdict is \<open>skip\<close> for every other sample.\<close>

definition skip_every_other :: sim_hook where
  "skip_every_other = (HOOK_READ, \<lambda>s. if even s then ACTION_SKIP else ACTION_OK)"

definition one_to_ten :: "nat list" where
  "one_to_ten = [1, 2, 3, 4, 5, 6, 7, 8, 9, 10]"

text \<open>
  A rate-driven path (2 Hz) with a queue of two slots and a pool of four samples, after
  two passes of the receive loop have enqueued the samples 5 and 6: the destination has
  read nothing, so the queue is full, and sample 7 waits at the source.
\<close>

definition full_queue_path :: "(sim_queue, nat) path" where
  "full_queue_path = sim_state 1 2 0 [(5, 1), (6, 1)] 2 2 0 0"

definition full_queue_world :: sim_world where
  "full_queue_world = \<lparr>sw_input = [7], sw_output = [], sw_timer = []\<rparr>"

definition full_queue_receiver :: "nat receiver" where
  "full_queue_receiver = \<lparr>ready = 0, smps = [6]\<rparr>"

text \<open>
  A rate-driven path (2 Hz) with a queue of four slots.  Sample 5 is received and sent
  at the first tick; then sample 6 is received, which gives the state below at the second
  tick.
\<close>

definition resend_path :: "(sim_queue, nat) path" where
  "resend_path = sim_state 1 2 0 [(5, 1), (6, 1), (0, 0), (0, 0)] 2 2 0 0"

definition resend_world :: sim_world where
  "resend_world = \<lparr>sw_input = [], sw_output = [(''B'', [5])], sw_timer = []\<rparr>"

text \<open>
  A rate-driven path that has received sample 5, with a timer whose next three ticks
  report three, one and two expirations.
\<close>

definition overrun_path :: "(sim_queue, nat) path" where
  "overrun_path = sim_state 1 1 0 [(5, 1), (0, 0), (0, 0), (0, 0)] 3 2 0 0"

definition overrun_world :: sim_world where
  "overrun_world = \<lparr>sw_input = [], sw_output = [], sw_timer = [3, 1, 2]\<rparr>"

section \<open>C37.118 synchrophasor frames (types.hpp, parser.cpp)\<close>

text \<open>
  Integers of the frames are machine words; a \<open>float\<close> is the 32-bit word of its
  representation, which is what the parser copies (\<open>deserialize(float *)\<close> and
  \<open>serialize(float const *)\<close> cast to \<open>uint32_t\<close>).  A \<open>std::variant\<close> is a datatype
  whose constructors stand in the order of the alternatives.
\<close>

type_synonym byte = "8 word"

datatype phasor =
  Rectangular_int16 "16 word" "16 word"
| Polar_int16 "16 word" "16 word"
| Rectangular_float "32 word" "32 word"
| Polar_float "32 word" "32 word"

datatype analog = Analog_int16 "16 word" | Analog_float "32 word"

datatype freq = Freq_int16 "16 word" | Freq_float "32 word"

record pmu_data =
  pd_stat :: "16 word"
  pd_phasor :: "phasor list"
  pd_freq :: freq
  pd_dfreq :: freq
  pd_analog :: "analog list"
  pd_digital :: "16 word list"

record channel_info =
  ci_nam :: "byte list"
  ci_unit :: "32 word"

record digital_info =
  di_nam :: "byte list list"
  di_unit :: "32 word"

record pmu_config1 =
  pm_stn :: "byte list"
  pm_idcode :: "16 word"
  pm_format :: "16 word"
  pm_phinfo :: "channel_info list"
  pm_aninfo :: "channel_info list"
  pm_dginfo :: "digital_info list"
  pm_fnom :: "16 word"
  pm_cfgcnt :: "16 word"

record config1 =
  c_time_base :: "32 word"
  c_pmus :: "pmu_config1 list"
  c_data_rate :: "16 word"

datatype message =
  Data "pmu_data list"
| Header "byte list"
| Config1 config1
| Config2 config1
| Command "16 word" "byte list"
| Config3

record frame =
  f_version :: "16 word"
  f_idcode :: "16 word"
  f_soc :: "32 word"
  f_fracsec :: "32 word"
  f_message :: message

text \<open>The position of the alternative a variant holds (\<open>index()\<close>).\<close>

fun phasor_index :: "phasor \<Rightarrow> nat" where
  "phasor_index (Rectangular_int16 _ _) = 0"
| "phasor_index (Polar_int16 _ _) = 1"
| "phasor_index (Rectangular_float _ _) = 2"
| "phasor_index (Polar_float _ _) = 3"

fun analog_index :: "analog \<Rightarrow> nat" where
  "analog_index (Analog_int16 _) = 0"
| "analog_index (Analog_float _) = 1"

fun freq_index :: "freq \<Rightarrow> nat" where
  "freq_index (Freq_int16 _) = 0"
| "freq_index (Freq_float _) = 1"

fun message_index :: "message \<Rightarrow> nat" where
  "message_index (Data _) = 0"
| "message_index (Header _) = 1"
| "message_index (Config1 _) = 2"
| "message_index (Config2 _) = 3"
| "message_index (Command _ _) = 4"
| "message_index Config3 = 5"

text \<open>Value-initialised objects, as \<open>resize\<close>, \<open>emplace\<close> and \<open>T {}\<close> make them.\<close>

definition default_pmu_data :: pmu_data where
  "default_pmu_data =
     \<lparr>pd_stat = 0, pd_phasor = [], pd_freq = Freq_int16 0, pd_dfreq = Freq_int16 0,
      pd_analog = [], pd_digital = []\<rparr>"

definition default_pmu_config1 :: pmu_config1 where
  "default_pmu_config1 =
     \<lparr>pm_stn = [], pm_idcode = 0, pm_format = 0, pm_phinfo = [], pm_aninfo = [],
      pm_dginfo = [], pm_fnom = 0, pm_cfgcnt = 0\<rparr>"

definition default_config1 :: config1 where
  "default_config1 = \<lparr>c_time_base = 0, c_pmus = [], c_data_rate = 0\<rparr>"

definition resize :: "nat \<Rightarrow> 'a \<Rightarrow> 'a list \<Rightarrow> 'a list" where
  "resize n dflt xs = take n xs @ replicate (n - length xs) dflt"

subsection \<open>The checksum\<close>

text \<open>One pass of the loop of \<open>calculate_crc\<close>; all variables are \<open>uint16_t\<close>.\<close>

definition crc_step :: "16 word \<Rightarrow> byte \<Rightarrow> 16 word" where
  "crc_step crc b =
     (let temp = drop_bit 8 crc XOR ucast b;
          crc1 = push_bit 8 crc;
          quick = temp XOR drop_bit 4 temp;
          crc2 = crc1 XOR quick;
          quick1 = push_bit 5 quick;
          crc3 = crc2 XOR quick1;
          quick2 = push_bit 7 quick1
      in crc3 XOR quick2)"

definition calculate_crc :: "byte list \<Rightarrow> 16 word \<Rightarrow> 16 word" where
  "calculate_crc frame sz = foldl crc_step 0xFFFF (take (unat sz) frame)"

subsection \<open>The parser\<close>

text \<open>
  \<open>Status\<close> with its enumerators other than \<open>Ok\<close>.  A \<open>Result\<close> is an error
  (\<open>error(s)\<close>, negative in the C++) or the non-negative value of \<open>ok(t)\<close>: a
  length, or a position in the buffer where the C++ passes a pointer.  \<open>parser.hpp\<close> is
  not among the sources; \<open>ok()\<close> without an argument is taken to be the result 0, and
  \<open>copy_to(&x)\<close>, \<open>copy_from(&x)\<close> without a length to copy \<open>sizeof(x)\<close> bytes.
  \<open>Undefined\<close> is no enumerator of \<open>Status\<close>: it marks the executions in which the C++
  leaves its buffer or indexes a vector out of range, and which are followed no further.
\<close>

datatype status =
  MissingBytes | MissingConfig | InvalidValue | InvalidChecksum | InvalidSlice | Other | Undefined

type_synonym result = "status + nat"

text \<open>
  \<open>Context\<close>: the bound config and the index of the PMU at hand.  \<open>Context::Config\<close> is
  a config frame's content, which for \<open>Config1\<close> and \<open>Config2\<close> is the same structure.
\<close>

record parse_context =
  ctx_config :: config1
  ctx_pmu_index :: nat

text \<open>
  A \<open>Parser\<close>: the bytes between \<open>start\<close> and \<open>end\<close>, the cursor as an offset from
  \<open>start\<close>, and the context if a config is bound.
\<close>

record parser =
  buf :: "byte list"
  cursor :: nat
  pcontext :: "parse_context option"

definition Parser :: "byte list \<Rightarrow> config1 option \<Rightarrow> parser" where
  "Parser buffer config =
     \<lparr>buf = buffer, cursor = 0,
      pcontext = map_option (\<lambda>c. \<lparr>ctx_config = c, ctx_pmu_index = 0\<rparr>) config\<rparr>"

definition parser_slice :: "parser \<Rightarrow> int \<Rightarrow> nat \<Rightarrow> result" where
  "parser_slice p off len =
     (if int (cursor p) + off < 0 then Inl InvalidSlice
      else if int (cursor p) + off + int len > int (length (buf p)) then Inl MissingBytes
      else Inr (nat (int (cursor p) + off)))"

definition require :: "parser \<Rightarrow> nat \<Rightarrow> result \<times> parser" where
  "require p len =
     (if int (length (buf p)) - int (cursor p) < int len then (Inl MissingBytes, p)
      else (Inr (cursor p), p\<lparr>cursor := cursor p + len\<rparr>))"

definition subparser :: "parser \<Rightarrow> nat \<Rightarrow> nat \<Rightarrow> parser" where
  "subparser p buffer len =
     Parser (take len (drop buffer (buf p))) (map_option ctx_config (pcontext p))"

definition remaining :: "parser \<Rightarrow> nat" where
  "remaining p = length (buf p) - cursor p"

definition copy_from :: "parser \<Rightarrow> byte list \<Rightarrow> result \<times> parser" where
  "copy_from p arg =
     (case require p (length arg) of
        (Inl e, p1) \<Rightarrow> (Inl e, p1)
      | (Inr old, p1) \<Rightarrow>
          (Inr (length arg),
           p1\<lparr>buf := take old (buf p1) @ arg @ drop (old + length arg) (buf p1)\<rparr>))"

definition copy_to :: "parser \<Rightarrow> byte list \<Rightarrow> nat \<Rightarrow> result \<times> byte list \<times> parser" where
  "copy_to p arg len =
     (case require p len of
        (Inl e, p1) \<Rightarrow> (Inl e, arg, p1)
      | (Inr old, p1) \<Rightarrow> (Inr len, take len (drop old (buf p1)), p1))"

text \<open>Network byte order.\<close>

definition htons :: "16 word \<Rightarrow> byte list" where
  "htons i = [ucast (drop_bit 8 i), ucast i]"

definition ntohs :: "byte list \<Rightarrow> 16 word" where
  "ntohs bs = push_bit 8 (ucast (bs ! 0)) OR ucast (bs ! 1)"

definition htonl :: "32 word \<Rightarrow> byte list" where
  "htonl i = [ucast (drop_bit 24 i), ucast (drop_bit 16 i), ucast (drop_bit 8 i), ucast i]"

definition ntohl :: "byte list \<Rightarrow> 32 word" where
  "ntohl bs = push_bit 24 (ucast (bs ! 0)) OR push_bit 16 (ucast (bs ! 1)) OR
              push_bit 8 (ucast (bs ! 2)) OR ucast (bs ! 3)"

text \<open>
  A deserialiser takes the parser and the object behind its pointer argument and yields
  the result, the object as the call leaves it, and the parser.  A serialiser takes the
  parser and the object and yields the result and the parser.
\<close>

type_synonym 'a deserializer = "parser \<Rightarrow> 'a \<Rightarrow> result \<times> 'a \<times> parser"
type_synonym 'a serializer = "parser \<Rightarrow> 'a \<Rightarrow> result \<times> parser"

text \<open>
  The variadic templates \<open>deserialize(arg1, arg2, args...)\<close> and
  \<open>serialize(arg1, arg2, args...)\<close>: the arguments in turn, up to the first error, the
  results added up.  A step works on the parser and on the object whose members (or the
  locals of the caller) the arguments point to.
\<close>

type_synonym 'o step = "parser \<times> 'o \<Rightarrow> result \<times> parser \<times> 'o"

fun variadic :: "'o step list \<Rightarrow> 'o step" where
  "variadic [] s = (Inr 0, s)"
| "variadic [f] s = f s"
| "variadic (f # g # fs) s =
     (case f s of
        (Inl e, s1) \<Rightarrow> (Inl e, s1)
      | (Inr head, s1) \<Rightarrow>
          (case variadic (g # fs) s1 of
             (Inl e, s2) \<Rightarrow> (Inl e, s2)
           | (Inr tail, s2) \<Rightarrow> (Inr (head + tail), s2)))"

definition reading :: "'a deserializer \<Rightarrow> ('o \<Rightarrow> 'a) \<Rightarrow> ('a \<Rightarrow> 'o \<Rightarrow> 'o) \<Rightarrow> 'o step" where
  "reading d getter setter s =
     (let (p, obj) = s; (r, v, p1) = d p (getter obj) in (r, p1, setter v obj))"

definition writing :: "'a serializer \<Rightarrow> ('o \<Rightarrow> 'a) \<Rightarrow> 'o step" where
  "writing w getter s = (let (p, obj) = s; (r, p1) = w p (getter obj) in (r, p1, obj))"

subsection \<open>Integers, arrays and vectors\<close>

definition deserialize_uint16 :: "16 word deserializer" where
  "deserialize_uint16 p i =
     (case copy_to p [] 2 of
        (Inl e, bs, p1) \<Rightarrow> (Inl e, i, p1)
      | (Inr n, bs, p1) \<Rightarrow> (Inr n, ntohs bs, p1))"

definition deserialize_uint32 :: "32 word deserializer" where
  "deserialize_uint32 p i =
     (case copy_to p [] 4 of
        (Inl e, bs, p1) \<Rightarrow> (Inl e, i, p1)
      | (Inr n, bs, p1) \<Rightarrow> (Inr n, ntohl bs, p1))"

definition serialize_uint8 :: "byte serializer" where
  "serialize_uint8 p i = copy_from p [i]"

definition serialize_uint16 :: "16 word serializer" where
  "serialize_uint16 p i = copy_from p (htons i)"

definition serialize_uint32 :: "32 word serializer" where
  "serialize_uint32 p i = copy_from p (htonl i)"

text \<open>
  The loops over a \<open>std::array\<close> and over a \<open>std::vector\<close>: element after element up to
  the first error; the result of a complete loop is \<open>ok()\<close>.
\<close>

fun deserialize_vector :: "'a deserializer \<Rightarrow> 'a list deserializer" where
  "deserialize_vector d p [] = (Inr 0, [], p)"
| "deserialize_vector d p (x # xs) =
     (case d p x of
        (Inl e, x1, p1) \<Rightarrow> (Inl e, x1 # xs, p1)
      | (Inr n, x1, p1) \<Rightarrow>
          (case deserialize_vector d p1 xs of (r, xs1, p2) \<Rightarrow> (r, x1 # xs1, p2)))"

fun serialize_vector :: "'a serializer \<Rightarrow> 'a list serializer" where
  "serialize_vector w p [] = (Inr 0, p)"
| "serialize_vector w p (x # xs) =
     (case w p x of
        (Inl e, p1) \<Rightarrow> (Inl e, p1)
      | (Inr n, p1) \<Rightarrow> serialize_vector w p1 xs)"


subsection \<open>The context\<close>

text \<open>
  The accessors of \<open>Context\<close> return \<open>uint16_t\<close>: a size is cut to 16 bits.  The PMU at
  hand is \<open>pmus[pmu_index]\<close>, which there is none of once the index has run past the
  vector.
\<close>

definition num_pmu :: "parse_context \<Rightarrow> nat" where
  "num_pmu c = length (c_pmus (ctx_config c)) mod 65536"

definition ctx_pmu :: "parser \<Rightarrow> pmu_config1 option" where
  "ctx_pmu p =
     (case pcontext p of
        None \<Rightarrow> None
      | Some c \<Rightarrow>
          if ctx_pmu_index c < length (c_pmus (ctx_config c))
          then Some (c_pmus (ctx_config c) ! ctx_pmu_index c) else None)"

definition phnmr :: "pmu_config1 \<Rightarrow> nat" where
  "phnmr pmu = length (pm_phinfo pmu) mod 65536"

definition annmr :: "pmu_config1 \<Rightarrow> nat" where
  "annmr pmu = length (pm_aninfo pmu) mod 65536"

definition dgnmr :: "pmu_config1 \<Rightarrow> nat" where
  "dgnmr pmu = length (pm_dginfo pmu) mod 65536"

definition reset :: "parser \<Rightarrow> parser" where
  "reset p = p\<lparr>pcontext := map_option (\<lambda>c. c\<lparr>ctx_pmu_index := 0\<rparr>) (pcontext p)\<rparr>"

definition next_pmu :: "parser \<Rightarrow> parser" where
  "next_pmu p = p\<lparr>pcontext := map_option (\<lambda>c. c\<lparr>ctx_pmu_index := Suc (ctx_pmu_index c)\<rparr>) (pcontext p)\<rparr>"

subsection \<open>Measurements\<close>

text \<open>
  \<open>Rectangular<T>\<close> and \<open>Polar<T>\<close>: two members of 16 or of 32 bits, read and written
  one after the other.
\<close>

definition deserialize_pair16 :: "(16 word \<times> 16 word) deserializer" where
  "deserialize_pair16 p x =
     (case variadic [reading deserialize_uint16 fst (\<lambda>v obj. (v, snd obj)),
                     reading deserialize_uint16 snd (\<lambda>v obj. (fst obj, v))] (p, x) of
        (r, p1, y) \<Rightarrow> (r, y, p1))"

definition deserialize_pair32 :: "(32 word \<times> 32 word) deserializer" where
  "deserialize_pair32 p x =
     (case variadic [reading deserialize_uint32 fst (\<lambda>v obj. (v, snd obj)),
                     reading deserialize_uint32 snd (\<lambda>v obj. (fst obj, v))] (p, x) of
        (r, p1, y) \<Rightarrow> (r, y, p1))"

definition serialize_pair16 :: "(16 word \<times> 16 word) serializer" where
  "serialize_pair16 p x =
     (case variadic [writing serialize_uint16 fst, writing serialize_uint16 snd] (p, x) of
        (r, p1, y) \<Rightarrow> (r, p1))"

definition serialize_pair32 :: "(32 word \<times> 32 word) serializer" where
  "serialize_pair32 p x =
     (case variadic [writing serialize_uint32 fst, writing serialize_uint32 snd] (p, x) of
        (r, p1, y) \<Rightarrow> (r, p1))"

definition deserialize_Phasor :: "phasor deserializer" where
  "deserialize_Phasor p ph =
     (case ctx_pmu p of
        None \<Rightarrow> (Inl Undefined, ph, p)
      | Some pmu \<Rightarrow>
          (let k = unat (pm_format pmu AND 0x3)
           in if k = 0 then
                (case deserialize_pair16 p (0, 0) of (r, (a, b), p1) \<Rightarrow> (r, Rectangular_int16 a b, p1))
              else if k = 1 then
                (case deserialize_pair16 p (0, 0) of (r, (a, b), p1) \<Rightarrow> (r, Polar_int16 a b, p1))
              else if k = 2 then
                (case deserialize_pair32 p (0, 0) of (r, (a, b), p1) \<Rightarrow> (r, Rectangular_float a b, p1))
              else
                (case deserialize_pair32 p (0, 0) of (r, (a, b), p1) \<Rightarrow> (r, Polar_float a b, p1))))"

definition serialize_Phasor :: "phasor serializer" where
  "serialize_Phasor p ph =
     (case ctx_pmu p of
        None \<Rightarrow> (Inl Undefined, p)
      | Some pmu \<Rightarrow>
          if unat (pm_format pmu AND 0x3) \<noteq> phasor_index ph then (Inl InvalidValue, p)
          else (case ph of
                  Rectangular_int16 a b \<Rightarrow> serialize_pair16 p (a, b)
                | Polar_int16 a b \<Rightarrow> serialize_pair16 p (a, b)
                | Rectangular_float a b \<Rightarrow> serialize_pair32 p (a, b)
                | Polar_float a b \<Rightarrow> serialize_pair32 p (a, b)))"

definition deserialize_Analog :: "analog deserializer" where
  "deserialize_Analog p a =
     (case ctx_pmu p of
        None \<Rightarrow> (Inl Undefined, a, p)
      | Some pmu \<Rightarrow>
          if pm_format pmu AND 0x4 \<noteq> 0
          then (case deserialize_uint32 p 0 of (r, v, p1) \<Rightarrow> (r, Analog_float v, p1))
          else (case deserialize_uint16 p 0 of (r, v, p1) \<Rightarrow> (r, Analog_int16 v, p1)))"

definition serialize_Analog :: "analog serializer" where
  "serialize_Analog p a =
     (case ctx_pmu p of
        None \<Rightarrow> (Inl Undefined, p)
      | Some pmu \<Rightarrow>
          if unat (pm_format pmu AND 0x4) \<noteq> push_bit 2 (analog_index a) then (Inl InvalidValue, p)
          else (case a of
                  Analog_int16 v \<Rightarrow> serialize_uint16 p v
                | Analog_float v \<Rightarrow> serialize_uint32 p v))"

definition deserialize_Freq :: "freq deserializer" where
  "deserialize_Freq p f =
     (case ctx_pmu p of
        None \<Rightarrow> (Inl Undefined, f, p)
      | Some pmu \<Rightarrow>
          if pm_format pmu AND 0x8 \<noteq> 0
          then (case deserialize_uint32 p 0 of (r, v, p1) \<Rightarrow> (r, Freq_float v, p1))
          else (case deserialize_uint16 p 0 of (r, v, p1) \<Rightarrow> (r, Freq_int16 v, p1)))"

definition serialize_Freq :: "freq serializer" where
  "serialize_Freq p f =
     (case ctx_pmu p of
        None \<Rightarrow> (Inl Undefined, p)
      | Some pmu \<Rightarrow>
          if unat (pm_format pmu AND 0x8) \<noteq> push_bit 3 (freq_index f) then (Inl InvalidValue, p)
          else (case f of
                  Freq_int16 v \<Rightarrow> serialize_uint16 p v
                | Freq_float v \<Rightarrow> serialize_uint32 p v))"

definition deserialize_PmuData :: "pmu_data deserializer" where
  "deserialize_PmuData p d =
     (case ctx_pmu p of
        None \<Rightarrow> (Inl Undefined, d, p)
      | Some pmu \<Rightarrow>
          (let d1 = d\<lparr>pd_phasor := resize (phnmr pmu) (Rectangular_int16 0 0) (pd_phasor d),
                       pd_analog := resize (annmr pmu) (Analog_int16 0) (pd_analog d),
                       pd_digital := resize (dgnmr pmu) 0 (pd_digital d)\<rparr>;
               (r, p1, d2) =
                 variadic
                   [reading deserialize_uint16 pd_stat (\<lambda>v obj. obj\<lparr>pd_stat := v\<rparr>),
                    reading (deserialize_vector deserialize_Phasor) pd_phasor (\<lambda>v obj. obj\<lparr>pd_phasor := v\<rparr>),
                    reading deserialize_Freq pd_freq (\<lambda>v obj. obj\<lparr>pd_freq := v\<rparr>),
                    reading deserialize_Freq pd_dfreq (\<lambda>v obj. obj\<lparr>pd_dfreq := v\<rparr>),
                    reading (deserialize_vector deserialize_Analog) pd_analog (\<lambda>v obj. obj\<lparr>pd_analog := v\<rparr>),
                    reading (deserialize_vector deserialize_uint16) pd_digital (\<lambda>v obj. obj\<lparr>pd_digital := v\<rparr>)]
                   (p, d1)
           in (r, d2, next_pmu p1)))"

definition serialize_PmuData :: "pmu_data serializer" where
  "serialize_PmuData p d =
     (case ctx_pmu p of
        None \<Rightarrow> (Inl Undefined, p)
      | Some pmu \<Rightarrow>
          if length (pd_phasor d) \<noteq> phnmr pmu \<or> length (pd_analog d) \<noteq> annmr pmu \<or>
             length (pd_digital d) \<noteq> dgnmr pmu
          then (Inl InvalidValue, p)
          else
            (let (r, p1, d1) =
                   variadic
                     [writing serialize_uint16 pd_stat,
                      writing (serialize_vector serialize_Phasor) pd_phasor,
                      writing serialize_Freq pd_freq,
                      writing serialize_Freq pd_dfreq,
                      writing (serialize_vector serialize_Analog) pd_analog,
                      writing (serialize_vector serialize_uint16) pd_digital]
                     (p, d)
             in (r, next_pmu p1)))"

subsection \<open>Messages\<close>

definition deserialize_Data :: "pmu_data list deserializer" where
  "deserialize_Data p d =
     (case pcontext p of
        None \<Rightarrow> (Inl MissingConfig, d, p)
      | Some c \<Rightarrow> deserialize_vector deserialize_PmuData (reset p) (resize (num_pmu c) default_pmu_data d))"

definition serialize_Data :: "pmu_data list serializer" where
  "serialize_Data p d =
     (case pcontext p of
        None \<Rightarrow> (Inl MissingConfig, p)
      | Some c \<Rightarrow>
          if length d \<noteq> num_pmu c then (Inl InvalidValue, p)
          else serialize_vector serialize_PmuData (reset p) d)"

definition deserialize_Header :: "byte list deserializer" where
  "deserialize_Header p h = (let h1 = resize (remaining p) 0 h in copy_to p h1 (length h1))"

definition serialize_Header :: "byte list serializer" where
  "serialize_Header p h = copy_from p h"

definition deserialize_Name1 :: "byte list deserializer" where
  "deserialize_Name1 p n = (let n1 = resize 16 0 n in copy_to p n1 (length n1))"

definition serialize_Name1 :: "byte list serializer" where
  "serialize_Name1 p n = copy_from p (take 16 n @ replicate (16 - length n) 0)"

text \<open>The locals of \<open>deserialize(PmuConfig1 *)\<close> and \<open>serialize(PmuConfig1 const *)\<close>.\<close>

record pmu_config1_locals =
  lc_p :: pmu_config1
  lc_phnmr :: "16 word"
  lc_annmr :: "16 word"
  lc_dgnmr :: "16 word"
  lc_phnam :: "byte list list"
  lc_annam :: "byte list list"
  lc_dgnam :: "byte list list list"
  lc_phunit :: "32 word list"
  lc_anunit :: "32 word list"
  lc_dgunit :: "32 word list"

definition pmu_config1_locals :: "pmu_config1 \<Rightarrow> pmu_config1_locals" where
  "pmu_config1_locals pmu =
     \<lparr>lc_p = pmu, lc_phnmr = 0, lc_annmr = 0, lc_dgnmr = 0, lc_phnam = [], lc_annam = [],
      lc_dgnam = [], lc_phunit = [], lc_anunit = [], lc_dgunit = []\<rparr>"

definition deserialize_PmuConfig1 :: "pmu_config1 deserializer" where
  "deserialize_PmuConfig1 p pmu =
     (case variadic
             [reading deserialize_Name1 (pm_stn \<circ> lc_p) (\<lambda>v obj. obj\<lparr>lc_p := (lc_p obj)\<lparr>pm_stn := v\<rparr>\<rparr>),
              reading deserialize_uint16 (pm_idcode \<circ> lc_p) (\<lambda>v obj. obj\<lparr>lc_p := (lc_p obj)\<lparr>pm_idcode := v\<rparr>\<rparr>),
              reading deserialize_uint16 (pm_format \<circ> lc_p) (\<lambda>v obj. obj\<lparr>lc_p := (lc_p obj)\<lparr>pm_format := v\<rparr>\<rparr>),
              reading deserialize_uint16 lc_phnmr (\<lambda>v obj. obj\<lparr>lc_phnmr := v\<rparr>),
              reading deserialize_uint16 lc_annmr (\<lambda>v obj. obj\<lparr>lc_annmr := v\<rparr>),
              reading deserialize_uint16 lc_dgnmr (\<lambda>v obj. obj\<lparr>lc_dgnmr := v\<rparr>)]
             (p, pmu_config1_locals pmu) of
        (Inl e, p1, l1) \<Rightarrow> (Inl e, lc_p l1, p1)
      | (Inr n, p1, l1) \<Rightarrow>
          (let l2 = l1\<lparr>lc_phnam := resize (unat (lc_phnmr l1)) [] [],
                       lc_annam := resize (unat (lc_annmr l1)) [] [],
                       lc_dgnam := resize (unat (lc_dgnmr l1)) (replicate 16 []) [],
                       lc_phunit := resize (unat (lc_phnmr l1)) 0 [],
                       lc_anunit := resize (unat (lc_annmr l1)) 0 [],
                       lc_dgunit := resize (unat (lc_dgnmr l1)) 0 []\<rparr>
           in case variadic
                     [reading (deserialize_vector deserialize_Name1) lc_phnam (\<lambda>v obj. obj\<lparr>lc_phnam := v\<rparr>),
                      reading (deserialize_vector deserialize_Name1) lc_annam (\<lambda>v obj. obj\<lparr>lc_annam := v\<rparr>),
                      reading (deserialize_vector (deserialize_vector deserialize_Name1)) lc_dgnam
                        (\<lambda>v obj. obj\<lparr>lc_dgnam := v\<rparr>),
                      reading (deserialize_vector deserialize_uint32) lc_phunit (\<lambda>v obj. obj\<lparr>lc_phunit := v\<rparr>),
                      reading (deserialize_vector deserialize_uint32) lc_anunit (\<lambda>v obj. obj\<lparr>lc_anunit := v\<rparr>),
                      reading (deserialize_vector deserialize_uint32) lc_dgunit (\<lambda>v obj. obj\<lparr>lc_dgunit := v\<rparr>),
                      reading deserialize_uint16 (pm_fnom \<circ> lc_p) (\<lambda>v obj. obj\<lparr>lc_p := (lc_p obj)\<lparr>pm_fnom := v\<rparr>\<rparr>),
                      reading deserialize_uint16 (pm_cfgcnt \<circ> lc_p) (\<lambda>v obj. obj\<lparr>lc_p := (lc_p obj)\<lparr>pm_cfgcnt := v\<rparr>\<rparr>)]
                     (p1, l2) of
                (Inl e, p2, l3) \<Rightarrow> (Inl e, lc_p l3, p2)
              | (Inr n, p2, l3) \<Rightarrow>
                  (Inr 0,
                   (lc_p l3)\<lparr>pm_phinfo := map2 (\<lambda>n u. \<lparr>ci_nam = n, ci_unit = u\<rparr>) (lc_phnam l3) (lc_phunit l3),
                             pm_aninfo := map2 (\<lambda>n u. \<lparr>ci_nam = n, ci_unit = u\<rparr>) (lc_annam l3) (lc_anunit l3),
                             pm_dginfo := map2 (\<lambda>n u. \<lparr>di_nam = n, di_unit = u\<rparr>) (lc_dgnam l3) (lc_dgunit l3)\<rparr>,
                   p2)))"

definition serialize_PmuConfig1 :: "pmu_config1 serializer" where
  "serialize_PmuConfig1 p pmu =
     (let l = \<lparr>lc_p = pmu,
               lc_phnmr = word_of_nat (length (pm_phinfo pmu)),
               lc_annmr = word_of_nat (length (pm_aninfo pmu)),
               lc_dgnmr = word_of_nat (length (pm_dginfo pmu)),
               lc_phnam = map ci_nam (take (phnmr pmu) (pm_phinfo pmu)),
               lc_annam = map ci_nam (take (annmr pmu) (pm_aninfo pmu)),
               lc_dgnam = map di_nam (take (dgnmr pmu) (pm_dginfo pmu)),
               lc_phunit = map ci_unit (take (phnmr pmu) (pm_phinfo pmu)),
               lc_anunit = map ci_unit (take (annmr pmu) (pm_aninfo pmu)),
               lc_dgunit = map di_unit (take (dgnmr pmu) (pm_dginfo pmu))\<rparr>;
          (r, p1, l1) =
            variadic
              [writing serialize_Name1 (pm_stn \<circ> lc_p),
               writing serialize_uint16 (pm_idcode \<circ> lc_p),
               writing serialize_uint16 (pm_format \<circ> lc_p),
               writing serialize_uint16 lc_phnmr,
               writing serialize_uint16 lc_annmr,
               writing serialize_uint16 lc_dgnmr,
               writing (serialize_vector serialize_Name1) lc_phnam,
               writing (serialize_vector serialize_Name1) lc_annam,
               writing (serialize_vector (serialize_vector serialize_Name1)) lc_dgnam,
               writing (serialize_vector serialize_uint32) lc_phunit,
               writing (serialize_vector serialize_uint32) lc_anunit,
               writing (serialize_vector serialize_uint32) lc_dgunit,
               writing serialize_uint16 (pm_fnom \<circ> lc_p),
               writing serialize_uint16 (pm_cfgcnt \<circ> lc_p)]
              (p, l)
      in (r, p1))"

definition deserialize_Config1 :: "config1 deserializer" where
  "deserialize_Config1 p c =
     (case variadic
             [reading deserialize_uint32 (c_time_base \<circ> fst) (\<lambda>v obj. ((fst obj)\<lparr>c_time_base := v\<rparr>, snd obj)),
              reading deserialize_uint16 snd (\<lambda>v obj. (fst obj, v))]
             (p, (c, 0)) of
        (Inl e, p1, (c1, n)) \<Rightarrow> (Inl e, c1, p1)
      | (Inr k, p1, (c1, n)) \<Rightarrow>
          (case variadic
                  [reading (deserialize_vector deserialize_PmuConfig1) c_pmus (\<lambda>v obj. obj\<lparr>c_pmus := v\<rparr>),
                   reading deserialize_uint16 c_data_rate (\<lambda>v obj. obj\<lparr>c_data_rate := v\<rparr>)]
                  (p1, c1\<lparr>c_pmus := resize (unat n) default_pmu_config1 (c_pmus c1)\<rparr>) of
             (r, p2, c2) \<Rightarrow> (r, c2, p2)))"

definition serialize_Config1 :: "config1 serializer" where
  "serialize_Config1 p c =
     (case variadic
             [writing serialize_uint32 (c_time_base \<circ> fst),
              writing serialize_uint16 snd,
              writing (serialize_vector serialize_PmuConfig1) (c_pmus \<circ> fst),
              writing serialize_uint16 (c_data_rate \<circ> fst)]
             (p, (c, word_of_nat (length (c_pmus c)))) of
        (r, p1, o1) \<Rightarrow> (r, p1))"

definition deserialize_Command :: "(16 word \<times> byte list) deserializer" where
  "deserialize_Command p c =
     (case deserialize_uint16 p (fst c) of
        (Inl e, cmd, p1) \<Rightarrow> (Inl e, (cmd, snd c), p1)
      | (Inr n, cmd, p1) \<Rightarrow>
          (let ext = resize (remaining p1) 0 (snd c)
           in case copy_to p1 ext (length ext) of (r, ext1, p2) \<Rightarrow> (r, (cmd, ext1), p2)))"

definition serialize_Command :: "(16 word \<times> byte list) serializer" where
  "serialize_Command p c =
     (case serialize_uint16 p (fst c) of
        (Inl e, p1) \<Rightarrow> (Inl e, p1)
      | (Inr n, p1) \<Rightarrow> copy_from p1 (snd c))"

text \<open>
  The visits of \<open>f->message\<close>.  \<open>deserialize(Config3 *)\<close> and
  \<open>serialize(Config3 const *)\<close> return \<open>ok()\<close>: the condition of their \<open>assert\<close> is a
  string literal, which is never null.
\<close>

definition deserialize_message :: "message deserializer" where
  "deserialize_message p m =
     (case m of
        Data d \<Rightarrow> (case deserialize_Data p d of (r, d1, p1) \<Rightarrow> (r, Data d1, p1))
      | Header h \<Rightarrow> (case deserialize_Header p h of (r, h1, p1) \<Rightarrow> (r, Header h1, p1))
      | Config1 c \<Rightarrow> (case deserialize_Config1 p c of (r, c1, p1) \<Rightarrow> (r, Config1 c1, p1))
      | Config2 c \<Rightarrow> (case deserialize_Config1 p c of (r, c1, p1) \<Rightarrow> (r, Config2 c1, p1))
      | Command cmd ext \<Rightarrow>
          (case deserialize_Command p (cmd, ext) of (r, (cmd1, ext1), p1) \<Rightarrow> (r, Command cmd1 ext1, p1))
      | Config3 \<Rightarrow> (Inr 0, Config3, p))"

definition serialize_message :: "message serializer" where
  "serialize_message p m =
     (case m of
        Data d \<Rightarrow> serialize_Data p d
      | Header h \<Rightarrow> serialize_Header p h
      | Config1 c \<Rightarrow> serialize_Config1 p c
      | Config2 c \<Rightarrow> serialize_Config1 p c
      | Command cmd ext \<Rightarrow> serialize_Command p (cmd, ext)
      | Config3 \<Rightarrow> (Inr 0, p))"

subsection \<open>Frames\<close>

text \<open>
  The frame type in the sync word, as the \<open>switch\<close> over \<open>f->message.index()\<close> of
  \<open>serialize(Frame const *)\<close> assigns it, and the message that the \<open>switch\<close> over
  \<open>sync & 0xF0\<close> of \<open>deserialize(Frame *)\<close> creates.
\<close>

definition serialize_type :: "nat \<Rightarrow> 16 word option" where
  "serialize_type index =
     (if index = 0 then Some 0x00
      else if index = 1 then Some 0x10
      else if index = 2 then Some 0x20
      else if index = 3 then Some 0x30
      else if index = 4 then Some 0x50
      else if index = 5 then Some 0x40
      else None)"

definition deserialize_type :: "16 word \<Rightarrow> message option" where
  "deserialize_type ty =
     (if ty = 0x00 then Some (Data [])
      else if ty = 0x10 then Some (Header [])
      else if ty = 0x20 then Some (Config1 default_config1)
      else if ty = 0x30 then Some (Config2 default_config1)
      else if ty = 0x40 then Some (Command 0 [])
      else if ty = 0x50 then Some Config3
      else None)"

text \<open>
  \<open>Placeholder<uint16_t>\<close>: serialising it writes a zero and saves a parser over the
  two bytes written; the placeholder is the position of these bytes, or \<open>None\<close> when
  nothing is saved.  \<open>replace\<close> writes its argument there.
\<close>

definition serialize_Placeholder :: "('o \<Rightarrow> nat option \<Rightarrow> 'o) \<Rightarrow> 'o step" where
  "serialize_Placeholder setter s =
     (let (p, obj) = s
      in case serialize_uint16 p 0 of
           (Inl e, p1) \<Rightarrow> (Inl e, p1, setter obj None)
         | (Inr n, p1) \<Rightarrow> (Inr n, p1, setter obj (Some (cursor p))))"

definition replace :: "parser \<Rightarrow> nat \<Rightarrow> 16 word \<Rightarrow> parser" where
  "replace p saved t = p\<lparr>buf := take saved (buf p) @ htons t @ drop (saved + 2) (buf p)\<rparr>"

text \<open>
  \<open>serialize(Frame const *)\<close>.  The object of its variadic call is the local \<open>sync\<close>,
  the placeholder \<open>framesize\<close> and the frame.
\<close>

definition serialize_Frame :: "frame serializer" where
  "serialize_Frame p f =
     (case serialize_type (message_index (f_message f)) of
        None \<Rightarrow> (Inl InvalidValue, p)
      | Some ty \<Rightarrow>
          (let sync = 0xAA00 OR ty OR f_version f
           in case variadic
                     [writing serialize_uint16 fst,
                      serialize_Placeholder (\<lambda>obj v. (fst obj, v, snd (snd obj))),
                      writing serialize_uint16 (f_idcode \<circ> snd \<circ> snd),
                      writing serialize_uint32 (f_soc \<circ> snd \<circ> snd),
                      writing serialize_uint32 (f_fracsec \<circ> snd \<circ> snd)]
                     (p, (sync, None, f)) of
                (Inl e, p1, o1) \<Rightarrow> (Inl e, p1)
              | (Inr result, p1, (sync1, framesize, f1)) \<Rightarrow>
                  (case serialize_message p1 (f_message f) of
                     (Inl e, p2) \<Rightarrow> (Inl e, p2)
                   | (Inr result2, p2) \<Rightarrow>
                       (let sz = result + result2;
                            total = (word_of_nat (sz + 2) :: 16 word)
                        in case framesize of
                             None \<Rightarrow> (Inl Undefined, p2)
                           | Some saved \<Rightarrow>
                               (let p3 = replace p2 saved total
                                in case parser_slice p3 (- int sz) sz of
                                     Inl e \<Rightarrow> (Inl Undefined, p3)
                                   | Inr first \<Rightarrow>
                                       (let crc = calculate_crc (drop first (buf p3)) (word_of_nat sz)
                                        in case serialize_uint16 p3 crc of
                                             (Inl e, p4) \<Rightarrow> (Inl e, p4)
                                           | (Inr n, p4) \<Rightarrow> (Inr 0, p4)))))))"

text \<open>
  \<open>deserialize(Frame *)\<close>, in parts from its end to its start: the checksum after
  the message, the message, the sizes and the slice the checksum is calculated over,
  and the first five fields.  The object of the variadic call is the locals
  \<open>sync\<close> and \<open>framesize\<close> and the frame.  \<open>contentsize\<close> and \<open>messagesize\<close> are
  unsigned differences; where \<open>framesize\<close> is less than the bytes read so far plus the
  checksum they wrap around and the C++ moves its pointers out of the buffer.
\<close>

definition deserialize_Frame_crc :: "parser \<Rightarrow> frame \<Rightarrow> 16 word \<Rightarrow> result \<times> frame \<times> parser" where
  "deserialize_Frame_crc p f calculated_crc =
     (case deserialize_uint16 p 0 of
        (Inl e, crc, p1) \<Rightarrow> (Inl e, f, p1)
      | (Inr k, crc, p1) \<Rightarrow>
          if crc \<noteq> calculated_crc then (Inl InvalidChecksum, f, p1) else (Inr 0, f, p1))"

definition deserialize_Frame_message ::
  "parser \<Rightarrow> frame \<Rightarrow> 16 word \<Rightarrow> nat \<Rightarrow> 16 word \<Rightarrow> result \<times> frame \<times> parser" where
  "deserialize_Frame_message p f sync messagesize calculated_crc =
     (case deserialize_type (sync AND 0xF0) of
        None \<Rightarrow> (Inl InvalidValue, f, p)
      | Some m0 \<Rightarrow>
          (case require p messagesize of
             (Inl e, p1) \<Rightarrow> (Inl Undefined, f\<lparr>f_message := m0\<rparr>, p1)
           | (Inr old, p1) \<Rightarrow>
               (case deserialize_message (subparser p1 old messagesize) m0 of
                  (Inl e, m1, mp) \<Rightarrow> (Inl e, f\<lparr>f_message := m1\<rparr>, p1)
                | (Inr n, m1, mp) \<Rightarrow> deserialize_Frame_crc p1 (f\<lparr>f_message := m1\<rparr>) calculated_crc)))"

definition deserialize_Frame_content ::
  "parser \<Rightarrow> frame \<Rightarrow> 16 word \<Rightarrow> 16 word \<Rightarrow> nat \<Rightarrow> result \<times> frame \<times> parser" where
  "deserialize_Frame_content p f sync framesize result =
     (if unat framesize < 2 + result then (Inl Undefined, f, p)
      else
        (let contentsize = unat framesize - 2;
             messagesize = contentsize - result
         in case parser_slice p (- int result) contentsize of
              Inl e \<Rightarrow> (Inl e, f, p)
            | Inr first \<Rightarrow>
                (let calculated_crc = calculate_crc (drop first (buf p)) (word_of_nat contentsize)
                 in if sync AND 0xFF00 \<noteq> 0xAA00 then (Inl InvalidValue, f, p)
                    else deserialize_Frame_message p (f\<lparr>f_version := sync AND 0xF\<rparr>) sync
                           messagesize calculated_crc)))"

definition deserialize_Frame_fields ::
  "parser \<Rightarrow> frame \<Rightarrow> result \<times> parser \<times> 16 word \<times> 16 word \<times> frame" where
  "deserialize_Frame_fields p f =
     variadic
       [reading deserialize_uint16 fst (\<lambda>v obj. (v, snd obj)),
        reading deserialize_uint16 (fst \<circ> snd) (\<lambda>v obj. (fst obj, v, snd (snd obj))),
        reading deserialize_uint16 (f_idcode \<circ> snd \<circ> snd)
          (\<lambda>v obj. (fst obj, fst (snd obj), (snd (snd obj))\<lparr>f_idcode := v\<rparr>)),
        reading deserialize_uint32 (f_soc \<circ> snd \<circ> snd)
          (\<lambda>v obj. (fst obj, fst (snd obj), (snd (snd obj))\<lparr>f_soc := v\<rparr>)),
        reading deserialize_uint32 (f_fracsec \<circ> snd \<circ> snd)
          (\<lambda>v obj. (fst obj, fst (snd obj), (snd (snd obj))\<lparr>f_fracsec := v\<rparr>))]
       (p, (0, 0, f))"

definition deserialize_Frame :: "frame deserializer" where
  "deserialize_Frame p f =
     (case deserialize_Frame_fields p f of
        (Inl e, p1, (sync, framesize, f1)) \<Rightarrow> (Inl e, f1, p1)
      | (Inr result, p1, (sync, framesize, f1)) \<Rightarrow>
          deserialize_Frame_content p1 f1 sync framesize result)"

text \<open>
  Serialising a frame into a buffer and deserialising a frame from bytes, each with a
  parser of its own that is bound to \<open>config\<close>: the bytes between the start of the
  buffer and the cursor, and the frame read.
\<close>

definition default_frame :: frame where
  "default_frame = \<lparr>f_version = 0, f_idcode = 0, f_soc = 0, f_fracsec = 0, f_message = Data []\<rparr>"

definition serialize :: "byte list \<Rightarrow> config1 option \<Rightarrow> frame \<Rightarrow> status + byte list" where
  "serialize buffer config f =
     (case serialize_Frame (Parser buffer config) f of
        (Inl e, p) \<Rightarrow> Inl e
      | (Inr n, p) \<Rightarrow> Inr (take (cursor p) (buf p)))"

definition deserialize :: "byte list \<Rightarrow> config1 option \<Rightarrow> status + frame" where
  "deserialize bytes config =
     (case deserialize_Frame (Parser bytes config) default_frame of
        (Inl e, f, p) \<Rightarrow> Inl e
      | (Inr n, f, p) \<Rightarrow> Inr f)"

subsection \<open>Example frames\<close>

text \<open>
  A command frame (command word 1, no extension), a configuration for two PMUs whose
  format word is \<open>0x0003\<close> with one phasor each, and a data frame for that
  configuration.
\<close>

definition command_frame :: frame where
  "command_frame =
     \<lparr>f_version = 1, f_idcode = 7, f_soc = 0x01020304, f_fracsec = 5,
      f_message = Command 0x1 []\<rparr>"

definition pmu_one :: pmu_config1 where
  "pmu_one =
     \<lparr>pm_stn = [0x50, 0x4D, 0x55, 0x31], pm_idcode = 1, pm_format = 0x0003,
      pm_phinfo = [\<lparr>ci_nam = [0x56, 0x41], ci_unit = 1\<rparr>], pm_aninfo = [], pm_dginfo = [],
      pm_fnom = 0, pm_cfgcnt = 1\<rparr>"

definition two_pmus :: config1 where
  "two_pmus =
     \<lparr>c_time_base = 1000000, c_pmus = [pmu_one, pmu_one\<lparr>pm_idcode := 2\<rparr>], c_data_rate = 50\<rparr>"

definition data_frame :: frame where
  "data_frame =
     \<lparr>f_version = 1, f_idcode = 7, f_soc = 0x01020304, f_fracsec = 5,
      f_message =
        Data [\<lparr>pd_stat = 0, pd_phasor = [Polar_float 1 2], pd_freq = Freq_int16 3,
                pd_dfreq = Freq_int16 4, pd_analog = [], pd_digital = []\<rparr>,
              \<lparr>pd_stat = 0, pd_phasor = [Polar_float 5 6], pd_freq = Freq_int16 7,
                pd_dfreq = Freq_int16 8, pd_analog = [], pd_digital = []\<rparr>]\<rparr>"

text \<open>
  The 18 bytes of the command frame and the 44 bytes of the data frame as
  \<open>serialize\<close> writes them: the sync word, the frame size, the id code, the second of
  century, the fraction of second, the message and the checksum.
\<close>

definition command_bytes :: "byte list" where
  "command_bytes = [0xAA, 0x51, 0, 16, 0, 7, 1, 2, 3, 4, 0, 0, 0, 5, 0, 1, 0xCD, 0x23]"

definition data_bytes :: "byte list" where
  "data_bytes =
     [0xAA, 0x01, 0, 16, 0, 7, 1, 2, 3, 4, 0, 0, 0, 5,
      0, 0, 0, 0, 0, 1, 0, 0, 0, 2, 0, 3, 0, 4,
      0, 0, 0, 0, 0, 5, 0, 0, 0, 6, 0, 7, 0, 8,
      0x17, 0xBB]"

text \<open>
  The command frame as \<open>deserialize\<close> reads it: frame type \<open>0x40\<close>, a frame size
  of 18 and the checksum \<open>0x1FF9\<close> of the first 16 bytes.
\<close>

definition command_wire :: "byte list" where
  "command_wire = [0xAA, 0x41, 0, 18, 0, 7, 1, 2, 3, 4, 0, 0, 0, 5, 0, 1, 0x1F, 0xF9]"

text \<open>A data frame without PMUs: 14 bytes and two bytes where the checksum would be.\<close>

definition empty_data_bytes :: "byte list" where
  "empty_data_bytes = [0xAA, 0x01, 0, 16, 0, 7, 1, 2, 3, 4, 0, 0, 0, 5, 0, 0]"

section \<open>Results on the linked list\<close>

text \<open>
  On any non-empty list \<open>list_push\<close> executes \<^verbatim>\<open>l->head->prev = e\<close>: afterwards the head
  is the same cell as before and its \<open>prev\<close> pointer is the new element.
\<close>

lemma list_push_sets_head_prev:
  assumes "l_head l = Some h" and "h \<noteq> brk s"
  shows "l_head (fst (list_push (l, s) p)) = Some h \<and>
         elm_prev (mem (snd (list_push (l, s) p)) h) = Some (brk s)"
  using assms
  by (simp add: list_push_def alloc_def upd_def Let_def split: option.splits)

text \<open>
  Claim C9.  \<open>list_push\<close> and \<open>list_insert\<close> are claimed to add exactly one element to
  the forward traversal and to keep the doubly linked list well formed (head without
  predecessor, tail without successor, \<open>e->next->prev == e\<close>).  The code does not:
  \<^item> pushing 10 and then 20 onto the empty list leaves a list whose traversal is
    \<open>[10, 20]\<close> but whose head has the new cell as predecessor;
  \<^item> inserting priorities 1, 3 and then 2 leaves a list of length 3 whose forward
    traversal is \<open>[10, 30]\<close>: the cell inserted between two others is not linked from
    its predecessor;
  \<^item> inserting priority 5 and then priority 1 (a new head) leaves the old head without
    a predecessor, so \<open>e->next->prev == e\<close> fails for the new head.
\<close>

theorem list_push_insert_not_well_formed:
  "list_wf (list_push (list_init, heap0) 10) \<and>
   list_contents (list_push (list_push (list_init, heap0) 10) 20) = Some [10, 20] \<and>
   \<not> list_wf (list_push (list_push (list_init, heap0) 10) 20) \<and>
   map_option (\<lambda>ls. (l_length (fst ls), list_contents ls))
     (Option.bind (Option.bind (list_insert (list_init, heap0) 1 10) (\<lambda>ls. list_insert ls 3 30))
        (\<lambda>ls. list_insert ls 2 20)) = Some (3, Some [10, 30]) \<and>
   map_option (\<lambda>ls. (list_contents ls, list_wf ls))
     (Option.bind (list_insert (list_init, heap0) 5 50) (\<lambda>ls. list_insert ls 1 10))
     = Some (Some [10, 50], False)"
  by code_simp

section \<open>Results on the remapping\<close>

lemma s_data_sample_set_data_format:
  "s_data (sample_set_data_format s i f) = s_data s"
  by (simp add: sample_set_data_format_def split: sample_data_format.splits)

text \<open>
  Claim C10.  A successful \<open>mapping_update\<close> for an entry of type stats is claimed to
  write exactly one value, at the entry's offset, and to leave every other slot and its
  data-format bit unchanged.  The code falls through from the stats block into the
  timestamp block: whenever the call returns \<open>0\<close> for a stats entry, the timestamp
  selector is \<open>origin\<close> or \<open>received\<close> and the two slots after the offset hold the
  seconds and nanoseconds of that timestamp.
\<close>

theorem mapping_update_stats_falls_through:
  assumes "me_type me = MAPPING_TYPE_STATS"
      and "mapping_update me remapped original s zero = (0, r)"
  shows "me_ts_id me \<noteq> MAPPING_TS_SEND \<and>
         s_data r (me_offset me + 1) =
           I (tv_sec (if me_ts_id me = MAPPING_TS_RECEIVED
                      then s_ts_received original else s_ts_origin original)) \<and>
         s_data r (me_offset me + 2) =
           I (tv_nsec (if me_ts_id me = MAPPING_TS_RECEIVED
                       then s_ts_received original else s_ts_origin original))"
  using assms
  by (auto simp: mapping_update_def update_stats_def update_ts_def set_data_def Let_def
           s_data_sample_set_data_format
      split: if_splits option.splits mapping_stats_type.splits mapping_ts_id.splits)

text \<open>
  At the example call the result is \<open>0\<close>; the slots 1 and 2, which held the integer 0,
  hold 300 and 400 afterwards, and the format bits 1 and 2 are set.
\<close>

theorem mapping_update_stats_falls_through_witness:
  "me_type stats_entry = MAPPING_TYPE_STATS \<and>
   mapping_update stats_entry blank_sample blank_sample some_stats 0 =
     (0, blank_sample\<lparr>s_length := 1, s_format := 6,
                      s_data := (\<lambda>_. I 0)(0 := F 2, 1 := I 300, 2 := I 400)\<rparr>) \<and>
   me_ts_id stats_entry \<noteq> MAPPING_TS_SEND \<and>
   s_data blank_sample 1 = I 0 \<and> s_data blank_sample 2 = I 0 \<and> s_format blank_sample = 0 \<and>
   s_data (snd (mapping_update stats_entry blank_sample blank_sample some_stats 0)) 1 = I 300 \<and>
   s_data (snd (mapping_update stats_entry blank_sample blank_sample some_stats 0)) 2 = I 400 \<and>
   s_format (snd (mapping_update stats_entry blank_sample blank_sample some_stats 0)) = 6"
proof -
  have ty: "me_type stats_entry = MAPPING_TYPE_STATS"
    by (simp add: stats_entry_def)
  have run: "mapping_update stats_entry blank_sample blank_sample some_stats 0 =
     (0, blank_sample\<lparr>s_length := 1, s_format := 6,
                      s_data := (\<lambda>_. I 0)(0 := F 2, 1 := I 300, 2 := I 400)\<rparr>)"
    by (simp add: mapping_update_def update_stats_def update_ts_def set_data_def Let_def
          stats_entry_def blank_sample_def some_stats_def sample_set_data_format_def)
  from mapping_update_stats_falls_through [OF ty run]
  have "me_ts_id stats_entry \<noteq> MAPPING_TS_SEND"
    by simp
  with ty run show ?thesis
    by (simp add: blank_sample_def)
qed

section \<open>Results on the configuration parser\<close>

text \<open>
  Claim C8.  For a path group that is enabled (\<open>enabled\<close> absent or true), has
  \<open>reverse = true\<close> and names two existing nodes \<open>A\<close> and \<open>B\<close>, and with memory for two
  structures, \<open>config_parse_path\<close> succeeds and puts exactly two paths on the list.  They
  are two newly allocated, distinct structures: one from \<open>A\<close> to \<open>B\<close>, one from \<open>B\<close> to
  \<open>A\<close>.  Every structure that was there before is as it was, and writing to either of
  the two leaves the other as it is.
\<close>

theorem config_parse_path_reverse:
  assumes "cfg_in cfg = Some A" and "cfg_out cfg = Some B"
      and "node_lookup_name A nodes = Some a" and "node_lookup_name B nodes = Some b"
      and "cfg_enabled cfg \<noteq> Some False" and "cfg_reverse cfg = Some True"
      and "2 \<le> ps_avail st"
  shows "\<exists>st' fwd rev.
           config_parse_path cfg (st, paths) nodes
             = Inr (st', Suc (length (ps_cells st)) # length (ps_cells st) # paths) \<and>
           load st (length (ps_cells st)) = Unallocated \<and>
           load st (Suc (length (ps_cells st))) = Unallocated \<and>
           load st' (length (ps_cells st)) = Cell fwd \<and>
           pc_in fwd = Some a \<and> pc_out fwd = Some b \<and>
           load st' (Suc (length (ps_cells st))) = Cell rev \<and>
           pc_in rev = Some b \<and> pc_out rev = Some a \<and>
           (\<forall>x < length (ps_cells st). load st' x = load st x) \<and>
           (\<forall>v. load (store st' (length (ps_cells st)) v) (Suc (length (ps_cells st))) = Cell rev) \<and>
           (\<forall>v. load (store st' (Suc (length (ps_cells st))) v) (length (ps_cells st)) = Cell fwd)"
  using assms
  by (cases "cfg_enabled cfg")
     (auto simp: config_parse_path_def malloc_def store_def load_def list_add_def Let_def
                 zero_path_def nth_append split: option.splits)

text \<open>The example group, parsed into an empty store and an empty path list.\<close>

theorem config_parse_path_reverse_witness:
  "cfg_in ab_cfg = Some ''A'' \<and> cfg_out ab_cfg = Some ''B'' \<and>
   node_lookup_name ''A'' ab_nodes = Some 1 \<and> node_lookup_name ''B'' ab_nodes = Some 2 \<and>
   cfg_enabled ab_cfg \<noteq> Some False \<and> cfg_reverse ab_cfg = Some True \<and> 2 \<le> ps_avail empty_store \<and>
   config_parse_path ab_cfg (empty_store, []) ab_nodes
     = Inr (\<lparr>ps_cells =
               [Cell \<lparr>pc_in = Some 1, pc_out = Some 2, pc_rate = 2, pc_cfg = Some ab_cfg\<rparr>,
                Cell \<lparr>pc_in = Some 2, pc_out = Some 1, pc_rate = 2, pc_cfg = Some ab_cfg\<rparr>],
             ps_avail = 2\<rparr>, [1, 0])"
proof -
  have h1: "cfg_in ab_cfg = Some ''A''" and h2: "cfg_out ab_cfg = Some ''B''"
    and h5: "cfg_enabled ab_cfg \<noteq> Some False" and h6: "cfg_reverse ab_cfg = Some True"
    by (simp_all add: ab_cfg_def)
  have h3: "node_lookup_name ''A'' ab_nodes = Some 1" and h4: "node_lookup_name ''B'' ab_nodes = Some 2"
    by (simp_all add: node_lookup_name_def ab_nodes_def)
  have h7: "2 \<le> ps_avail empty_store"
    by (simp add: empty_store_def)
  from config_parse_path_reverse [OF h1 h2 h3 h4 h5 h6 h7, of "[]"]
  obtain st' where run: "config_parse_path ab_cfg (empty_store, []) ab_nodes
      = Inr (st', Suc (length (ps_cells empty_store)) # length (ps_cells empty_store) # [])"
    by blast
  have "config_parse_path ab_cfg (empty_store, []) ab_nodes
     = Inr (\<lparr>ps_cells =
               [Cell \<lparr>pc_in = Some 1, pc_out = Some 2, pc_rate = 2, pc_cfg = Some ab_cfg\<rparr>,
                Cell \<lparr>pc_in = Some 2, pc_out = Some 1, pc_rate = 2, pc_cfg = Some ab_cfg\<rparr>],
             ps_avail = 2\<rparr>, [1, 0])"
    using run
    by (simp add: config_parse_path_def malloc_def store_def list_add_def Let_def zero_path_def
          ab_cfg_def ab_nodes_def empty_store_def node_lookup_name_def)
  with h1 h2 h3 h4 h5 h6 h7 show ?thesis
    by simp
qed

section \<open>Results on message paths\<close>

text \<open>
  In resend mode the loop of \<open>path_write\<close> is the resend of the specification: it leaves
  the path as it is and changes the world as \<open>resend_last_vector\<close> does.
\<close>

lemma path_write_loop_resend:
  "path_write_loop e True (p, w) as =
     (case resend_last_vector e p as w of Inl err \<Rightarrow> Inl err | Inr w' \<Rightarrow> Inr (p, w'))"
proof (induction as arbitrary: w)
  case Nil
  show ?case by simp
next
  case (Cons a as)
  show ?case
    by (simp add: path_write_node_def Let_def Cons split: prod.splits)
qed

lemma path_write_resend:
  "path_write e True (p, w) =
     (case resend_last_vector e p (p_destinations p) w of Inl err \<Rightarrow> Inl err | Inr w' \<Rightarrow> Inr (p, w'))"
  by (simp add: path_write_def path_write_loop_resend)

text \<open>
  In either mode \<open>path_write\<close> keeps the counters, the pointers, the rate, the hooks and
  the write cursor.
\<close>

lemma path_write_node_frame:
  "path_write_node e resend (p, w) a = Inr (p', w') \<Longrightarrow> path_frame p p'"
  by (auto simp: path_write_node_def path_frame_def Let_def split: prod.splits if_splits)

lemma path_write_loop_frame:
  "path_write_loop e resend (p, w) as = Inr (p', w') \<Longrightarrow> path_frame p p'"
proof (induction as arbitrary: p w)
  case Nil
  then show ?case by (simp add: path_frame_def)
next
  case (Cons a as)
  from Cons.prems obtain p1 w1 where
    1: "path_write_node e resend (p, w) a = Inr (p1, w1)" and
    2: "path_write_loop e resend (p1, w1) as = Inr (p', w')"
    by (auto split: sum.splits)
  from 1 have "path_frame p p1" by (rule path_write_node_frame)
  moreover from 2 have "path_frame p1 p'" by (rule Cons.IH)
  ultimately show ?case by (simp add: path_frame_def)
qed

lemma path_write_frame:
  "path_write e resend (p, w) = Inr (p', w') \<Longrightarrow> path_frame p p'"
  by (simp add: path_write_def path_write_loop_frame)

text \<open>\<open>path_write\<close> fails only where a destination reports a negative count.\<close>

lemma path_write_node_returns:
  assumes "\<forall>p a xs c w. 0 \<le> fst (node_write e p a xs c w)"
  shows "\<exists>pw'. path_write_node e resend pw a = Inr pw'"
proof -
  have "\<not> fst (node_write e p a xs c w) < 0" for p a xs c w
    using assms by (simp add: not_less)
  then have "node_write e p a xs c w = (s, w') \<Longrightarrow> \<not> s < 0" for p a xs c w s w'
    by (metis fst_conv)
  then show ?thesis
    by (auto simp: path_write_node_def Let_def split: prod.splits)
qed

lemma path_write_loop_returns:
  assumes "\<forall>p a xs c w. 0 \<le> fst (node_write e p a xs c w)"
  shows "\<exists>pw'. path_write_loop e resend pw as = Inr pw'"
proof (induction as arbitrary: pw)
  case Nil
  show ?case by simp
next
  case (Cons a as)
  from path_write_node_returns [OF assms] obtain pw1 where "path_write_node e resend pw a = Inr pw1"
    by blast
  with Cons show ?case by simp
qed

lemma path_write_returns:
  assumes "\<forall>p a xs c w. 0 \<le> fst (node_write e p a xs c w)"
  shows "\<exists>p' w'. path_write e resend pw = Inr (p', w')"
  using path_write_loop_returns [OF assms, of resend pw "p_destinations (fst pw)"]
  by (auto simp: path_write_def)

text \<open>The loop over the hooks touches the hooks' cursors, the queue and the pool only.\<close>

lemma path_run_hook_frame:
  "p_skipped (path_run_hook e p i) = p_skipped p \<and> p_overrun (path_run_hook e p i) = p_overrun p \<and>
   p_in (path_run_hook e p i) = p_in p \<and> p_nodes (path_run_hook e p i) = p_nodes p \<and>
   p_destinations (path_run_hook e p i) = p_destinations p \<and> p_rate (path_run_hook e p i) = p_rate p"
  by (simp add: path_run_hook_def Let_def split: prod.splits)

lemma foldl_path_run_hook_frame:
  "p_skipped (foldl (path_run_hook e) p is) = p_skipped p \<and>
   p_overrun (foldl (path_run_hook e) p is) = p_overrun p \<and>
   p_in (foldl (path_run_hook e) p is) = p_in p \<and>
   p_nodes (foldl (path_run_hook e) p is) = p_nodes p \<and>
   p_destinations (foldl (path_run_hook e) p is) = p_destinations p \<and>
   p_rate (foldl (path_run_hook e) p is) = p_rate p"
  by (induction "is" arbitrary: p) (simp_all add: path_run_hook_frame)

text \<open>
  One pass of the receive loop, given what the pool, the source node, the \<open>HOOK_READ\<close>
  chain and the queue return: \<open>p4\<close> is the path when the loop over the hooks is done.
\<close>

lemma path_run_pass:
  assumes "sample_get_many e (p_pool p) (n_vectorize (p_nodes p (p_in p)) - ready r) = (got, pool1)"
      and "node_read e (p\<lparr>p_pool := pool1\<rparr>) (p_in p) (fill (smps r) got) (ready r + int (length got)) w
             = ((recv, smps2), w1)"
      and "hook_run e (p\<lparr>p_pool := pool1\<rparr>) smps2 recv HOOK_READ w1 = ((enqueue, smps3), w2)"
      and "queue_push_many e (p_queue p) (take (nat enqueue) smps3) (n_received (p_nodes p (p_in p)))
             = (enqueued, pos, q1)"
      and "\<not> recv < 0"
  shows "\<exists>p4. p_skipped p4 = p_skipped p + (recv - enqueue) \<and> p_overrun p4 = p_overrun p \<and>
              p_in p4 = p_in p \<and> n_received (p_nodes p4 (p_in p)) = pos \<and>
              path_run e (p, w, r) =
                (if p_rate p = 0
                 then (case path_write e False (p4, w2) of
                         Inl err \<Rightarrow> Inl err
                       | Inr (p5, w3) \<Rightarrow>
                           Inr (p5, w3, r\<lparr>ready := ready r + int (length got) - enqueued, smps := smps3\<rparr>))
                 else Inr (p4, w2, r\<lparr>ready := ready r + int (length got) - enqueued, smps := smps3\<rparr>))"
proof -
  define p4 where "p4 =
     foldl (path_run_hook e)
       (p\<lparr>p_pool := pool1, p_skipped := p_skipped p + (recv - enqueue), p_queue := q1,
          p_nodes := (p_nodes p)(p_in p := (p_nodes p (p_in p))\<lparr>n_received := pos\<rparr>)\<rparr>)
       [0 ..< length (p_hooks p)]"
  have frame: "p_skipped p4 = p_skipped p + (recv - enqueue) \<and> p_overrun p4 = p_overrun p \<and>
               p_in p4 = p_in p \<and> n_received (p_nodes p4 (p_in p)) = pos"
    by (simp add: p4_def foldl_path_run_hook_frame)
  have run: "path_run e (p, w, r) =
                (if p_rate p = 0
                 then (case path_write e False (p4, w2) of
                         Inl err \<Rightarrow> Inl err
                       | Inr (p5, w3) \<Rightarrow>
                           Inr (p5, w3, r\<lparr>ready := ready r + int (length got) - enqueued, smps := smps3\<rparr>))
                 else Inr (p4, w2, r\<lparr>ready := ready r + int (length got) - enqueued, smps := smps3\<rparr>))"
  proof (cases "enqueue = recv")
    case True
    with assms show ?thesis
      by (simp add: path_run_def Let_def p4_def foldl_path_run_hook_frame)
  next
    case False
    with assms show ?thesis
      by (simp add: path_run_def Let_def p4_def foldl_path_run_hook_frame)
  qed
  from frame run show ?thesis
    by blast
qed

text \<open>The receive loop never writes the overrun counter.\<close>

lemma path_run_overrun:
  assumes "path_run e (p, w, r) = Inr (p', w', r')"
  shows "p_overrun p' = p_overrun p"
proof -
  obtain got pool1 where get:
    "sample_get_many e (p_pool p) (n_vectorize (p_nodes p (p_in p)) - ready r) = (got, pool1)"
    by (cases "sample_get_many e (p_pool p) (n_vectorize (p_nodes p (p_in p)) - ready r)")
  obtain recv smps2 w1 where rd:
    "node_read e (p\<lparr>p_pool := pool1\<rparr>) (p_in p) (fill (smps r) got) (ready r + int (length got)) w
       = ((recv, smps2), w1)"
    by (metis prod.collapse)
  obtain enqueue smps3 w2 where hk:
    "hook_run e (p\<lparr>p_pool := pool1\<rparr>) smps2 recv HOOK_READ w1 = ((enqueue, smps3), w2)"
    by (metis prod.collapse)
  obtain enqueued pos q1 where push:
    "queue_push_many e (p_queue p) (take (nat enqueue) smps3) (n_received (p_nodes p (p_in p)))
       = (enqueued, pos, q1)"
    by (metis prod.collapse)
  have pos: "\<not> recv < 0"
    using assms get rd by (auto simp: path_run_def Let_def)
  from path_run_pass [OF get rd hk push pos] assms show ?thesis
    by (auto simp: path_frame_def split: if_splits sum.splits dest!: path_write_frame)
qed

text \<open>The receive loop fails only where a node reports a negative count.\<close>

lemma path_run_returns:
  assumes "\<forall>p a xs c w. 0 \<le> fst (node_write e p a xs c w)"
      and "\<forall>p a xs c w. 0 \<le> fst (fst (node_read e p a xs c w))"
  shows "\<exists>pwr'. path_run e (p, w, r) = Inr pwr'"
proof -
  obtain got pool1 where get:
    "sample_get_many e (p_pool p) (n_vectorize (p_nodes p (p_in p)) - ready r) = (got, pool1)"
    by (cases "sample_get_many e (p_pool p) (n_vectorize (p_nodes p (p_in p)) - ready r)")
  obtain recv smps2 w1 where rd:
    "node_read e (p\<lparr>p_pool := pool1\<rparr>) (p_in p) (fill (smps r) got) (ready r + int (length got)) w
       = ((recv, smps2), w1)"
    by (metis prod.collapse)
  obtain enqueue smps3 w2 where hk:
    "hook_run e (p\<lparr>p_pool := pool1\<rparr>) smps2 recv HOOK_READ w1 = ((enqueue, smps3), w2)"
    by (metis prod.collapse)
  obtain enqueued pos q1 where push:
    "queue_push_many e (p_queue p) (take (nat enqueue) smps3) (n_received (p_nodes p (p_in p)))
       = (enqueued, pos, q1)"
    by (metis prod.collapse)
  from assms(2) have "0 \<le> fst (fst (node_read e (p\<lparr>p_pool := pool1\<rparr>) (p_in p) (fill (smps r) got)
      (ready r + int (length got)) w))"
    by blast
  with rd have pos: "\<not> recv < 0"
    by simp
  from path_run_pass [OF get rd hk push pos] obtain p4 where run: "path_run e (p, w, r) =
                (if p_rate p = 0
                 then (case path_write e False (p4, w2) of
                         Inl err \<Rightarrow> Inl err
                       | Inr (p5, w3) \<Rightarrow>
                           Inr (p5, w3, r\<lparr>ready := ready r + int (length got) - enqueued, smps := smps3\<rparr>))
                 else Inr (p4, w2, r\<lparr>ready := ready r + int (length got) - enqueued, smps := smps3\<rparr>))"
    by blast
  from path_write_returns [OF assms(1), of False "(p4, w2)"] obtain p5 w3 where
    "path_write e False (p4, w2) = Inr (p5, w3)"
    by blast
  with run show ?thesis
    by simp
qed

text \<open>
  One tick of the send thread adds the expirations to the overrun counter if they are
  more than one, and changes nothing else in the path.
\<close>

lemma path_run_async_tick:
  "path_run_async e (p, w) =
     (case timerfd_wait e w of
        (k, w1) \<Rightarrow>
          if n_received (p_nodes p (p_in p)) = 0
          then Inr (p\<lparr>p_overrun := p_overrun p + (if 1 < k then k else 0)\<rparr>, w1)
          else
            (case hook_run e (p\<lparr>p_overrun := p_overrun p + (if 1 < k then k else 0)\<rparr>) [] 0 HOOK_ASYNC w1 of
               ((c, s), w2) \<Rightarrow>
                 if c \<noteq> 0 then Inr (p\<lparr>p_overrun := p_overrun p + (if 1 < k then k else 0)\<rparr>, w2)
                 else path_write e True (p\<lparr>p_overrun := p_overrun p + (if 1 < k then k else 0)\<rparr>, w2)))"
proof -
  obtain k w1 where wait: "timerfd_wait e w = (k, w1)"
    by (cases "timerfd_wait e w")
  have eq: "(if k = 0 then p else if 1 < k then p\<lparr>p_overrun := p_overrun p + k\<rparr> else p)
          = p\<lparr>p_overrun := p_overrun p + (if 1 < k then k else 0)\<rparr>"
    by simp
  show ?thesis
    unfolding path_run_async_def
    by (simp add: wait Let_def eq del: if_split split: prod.splits)
qed

lemma path_run_async_tick_resend:
  assumes "timerfd_wait e w = (k, w1)"
      and "p1 = p\<lparr>p_overrun := p_overrun p + (if 1 < k then k else 0)\<rparr>"
  shows "path_run_async e (p, w) =
           (if n_received (p_nodes p (p_in p)) = 0 then Inr (p1, w1)
            else
              (case hook_run e p1 [] 0 HOOK_ASYNC w1 of
                 ((c, s), w2) \<Rightarrow>
                   if c \<noteq> 0 then Inr (p1, w2)
                   else
                     (case resend_last_vector e p1 (p_destinations p) w2 of
                        Inl err \<Rightarrow> Inl err
                      | Inr w3 \<Rightarrow> Inr (p1, w3))))"
proof -
  have dest: "p_destinations p1 = p_destinations p"
    by (simp add: assms(2))
  have "path_run_async e (p, w) =
           (if n_received (p_nodes p (p_in p)) = 0 then Inr (p1, w1)
            else
              (case hook_run e p1 [] 0 HOOK_ASYNC w1 of
                 ((c, s), w2) \<Rightarrow>
                   if c \<noteq> 0 then Inr (p1, w2) else path_write e True (p1, w2)))"
    unfolding assms(2) by (simp add: path_run_async_tick assms(1))
  then show ?thesis
    by (simp add: path_write_resend dest split: prod.splits)
qed

lemma path_run_async_adds_expirations:
  assumes "path_run_async e (p, w) = Inr (p', w')"
  shows "p_overrun p' = p_overrun p + (if 1 < fst (timerfd_wait e w) then fst (timerfd_wait e w) else 0)"
  using assms
  by (auto simp: path_run_async_tick path_write_resend split: prod.splits if_splits sum.splits)

lemma path_run_async_returns:
  assumes "\<forall>p a xs c w. 0 \<le> fst (node_write e p a xs c w)"
  shows "\<exists>p' w'. path_run_async e (p, w) = Inr (p', w')"
proof -
  have "\<exists>p' w'. path_write e True (q, v) = Inr (p', w')" for q v
    using path_write_returns [OF assms, of True "(q, v)"] .
  then show ?thesis
    by (auto simp: path_run_async_tick split: prod.splits)
qed

text \<open>
  Over any run of the two threads the overrun counter grows by the sum of the expirations
  of the ticks that reported more than one.
\<close>

lemma path_threads_overrun:
  "path_threads e ts (p, w, r) = Inr ((p', w', r'), ks) \<Longrightarrow>
     p_overrun p' = p_overrun p + sum_list (filter (\<lambda>k. 1 < k) ks) \<and>
     length ks = length (filter (\<lambda>t. t = Send) ts)"
proof (induction ts arbitrary: p w r ks)
  case Nil
  then show ?case by simp
next
  case (Cons t ts)
  show ?case
  proof (cases t)
    case Receive
    with Cons.prems obtain p1 w1 r1 where
      1: "path_run e (p, w, r) = Inr (p1, w1, r1)" and
      2: "path_threads e ts (p1, w1, r1) = Inr ((p', w', r'), ks)"
      by (auto split: sum.splits)
    from path_run_overrun [OF 1] Cons.IH [OF 2] Receive show ?thesis
      by simp
  next
    case Send
    with Cons.prems obtain p1 w1 ks1 where
      1: "path_run_async e (p, w) = Inr (p1, w1)" and
      2: "path_threads e ts (p1, w1, r) = Inr ((p', w', r'), ks1)" and
      3: "ks = fst (timerfd_wait e w) # ks1"
      by (auto split: sum.splits prod.splits)
    from path_run_async_adds_expirations [OF 1] Cons.IH [OF 2] 3 Send show ?thesis
      by simp
  qed
qed

lemma path_threads_returns:
  assumes "\<forall>p a xs c w. 0 \<le> fst (node_write e p a xs c w)"
      and "\<forall>p a xs c w. 0 \<le> fst (fst (node_read e p a xs c w))"
  shows "\<exists>p' w' r' ks. path_threads e ts (p, w, r) = Inr ((p', w', r'), ks)"
proof (induction ts arbitrary: p w r)
  case Nil
  show ?case by simp
next
  case (Cons t ts)
  show ?case
  proof (cases t)
    case Receive
    from path_run_returns [OF assms, of p w r] obtain p1 w1 r1 where
      "path_run e (p, w, r) = Inr (p1, w1, r1)"
      by (metis prod_cases3)
    with Cons [of p1 w1 r1] Receive show ?thesis
      by auto
  next
    case Send
    from path_run_async_returns [OF assms(1), of p w] obtain p1 w1 where
      "path_run_async e (p, w) = Inr (p1, w1)"
      by blast
    with Cons [of p1 w1 r] Send show ?thesis
      by auto
  qed
qed

text \<open>
  The queue of the specification: a push stops at the first slot that some reader has not
  passed yet.
\<close>

lemma sim_push_many_length: "sim_push_many q xs pos = (m, pos', q') \<Longrightarrow> length (sq_slots q') = length (sq_slots q)"
proof (induction xs arbitrary: q pos m pos' q')
  case Nil
  then show ?case by simp
next
  case (Cons s ss)
  then show ?case
    by (auto simp: Let_def split: if_splits prod.splits)
qed

lemma sim_push_many_stops:
  assumes "sim_push_many q xs pos = (m, pos', q')"
      and "k < length xs" and "k < length (sq_slots q)"
      and "snd (sq_slots q ! sq_slot q (pos + int k)) \<noteq> 0"
  shows "m \<le> int k"
  using assms
proof (induction xs arbitrary: q pos m pos' q' k)
  case Nil
  then show ?case by simp
next
  case (Cons s ss)
  show ?case
  proof (cases "sq_slots q = [] \<or> snd (sq_slots q ! sq_slot q pos) \<noteq> 0")
    case True
    with Cons.prems show ?thesis by auto
  next
    case False
    define q1 where "q1 = q\<lparr>sq_slots := (sq_slots q)[sq_slot q pos := (s, sq_readers q)]\<rparr>"
    obtain m1 pos1 q2 where rec: "sim_push_many q1 ss (pos + 1) = (m1, pos1, q2)"
      by (metis prod_cases3)
    from False rec Cons.prems(1) have m: "m = m1 + 1"
      by (simp add: q1_def Let_def)
    from False Cons.prems(4) have "k \<noteq> 0"
      by (cases k) auto
    then obtain j where k: "k = Suc j"
      by (cases k) auto
    have len: "length (sq_slots q1) = length (sq_slots q)"
      by (simp add: q1_def)
    have slot: "sq_slot q1 x = sq_slot q x" for x
      by (simp add: sq_slot_def len)
    from Cons.prems(3) k have "0 < int (Suc j)" "int (Suc j) < int (length (sq_slots q))"
      by simp_all
    then have "(pos + int (Suc j)) mod int (length (sq_slots q)) \<noteq> pos mod int (length (sq_slots q))"
      by (metis add.commute add_diff_cancel_left' mod_eq_dvd_iff zdvd_not_zless)
    moreover have "0 \<le> (pos + int (Suc j)) mod int (length (sq_slots q))"
                  "0 \<le> pos mod int (length (sq_slots q))"
    proof -
      from Cons.prems(3) have "0 < int (length (sq_slots q))"
        by (cases "sq_slots q") simp_all
      then show "0 \<le> (pos + int (Suc j)) mod int (length (sq_slots q))"
                "0 \<le> pos mod int (length (sq_slots q))"
        by (rule pos_mod_sign)+
    qed
    ultimately have ne: "sq_slot q (pos + int (Suc j)) \<noteq> sq_slot q pos"
      unfolding sq_slot_def by (simp only: eq_nat_nat_iff not_False_eq_True)
    have shift: "pos + 1 + int j = pos + int (Suc j)"
      by simp
    have "sq_slots q1 ! sq_slot q (pos + int (Suc j)) = sq_slots q ! sq_slot q (pos + int (Suc j))"
      using ne by (simp add: q1_def)
    with Cons.prems(4) k have "snd (sq_slots q1 ! sq_slot q1 (pos + 1 + int j)) \<noteq> 0"
      unfolding slot shift by simp
    moreover from Cons.prems(2,3) k have "j < length ss" "j < length (sq_slots q1)"
      by (simp_all add: len)
    ultimately have "m1 \<le> int j"
      using Cons.IH [OF rec] by blast
    with m k show ?thesis by simp
  qed
qed

text \<open>An observed outcome is the outcome of a path with that view.\<close>

lemma observe_Inr: "observe x = Inr (v, w) \<Longrightarrow> \<exists>p. x = Inr (p, w) \<and> snapshot p = v"
  by (cases x) (auto simp: observe_def)

lemma observe_run_Inr: "observe_run x = Inr (v, w, r) \<Longrightarrow> \<exists>p. x = Inr (p, w, r) \<and> snapshot p = v"
  by (cases x) (auto simp: observe_run_def)

lemma observe_threads_Inr:
  "observe_threads x = Inr ((v, w, r), ks) \<Longrightarrow> \<exists>p. x = Inr ((p, w, r), ks) \<and> snapshot p = v"
  by (cases x) (auto simp: observe_threads_def)

text \<open>
  Claim C7.  In a pass of the receive loop, let \<open>recv\<close> be the number of samples the
  source node returned and \<open>enqueue\<close> the number the \<open>HOOK_READ\<close> chain returned for
  them.  If \<open>recv\<close> is negative the pass is fatal.  Otherwise the skipped counter of the
  path is increased by exactly \<open>recv - enqueue\<close> before the push, and nothing after it
  changes the counter: at a rate other than 0 the pass returns with it; at rate 0 the
  pass returns what the send routine returns, with the same counter, and is fatal only if
  the send routine is.  Where no destination reports a negative count, every pass with
  \<open>recv \<ge> 0\<close> returns, with the counter increased by \<open>recv - enqueue\<close>.  This holds
  whatever the queue, the pool, the hooks and the nodes do.
\<close>

theorem path_run_skipped:
  assumes "sample_get_many e (p_pool p) (n_vectorize (p_nodes p (p_in p)) - ready r) = (got, pool1)"
      and "node_read e (p\<lparr>p_pool := pool1\<rparr>) (p_in p) (fill (smps r) got) (ready r + int (length got)) w
             = ((recv, smps2), w1)"
      and "hook_run e (p\<lparr>p_pool := pool1\<rparr>) smps2 recv HOOK_READ w1 = ((enqueue, smps3), w2)"
  shows "(if recv < 0 then path_run e (p, w, r) = Inl Failed_to_receive
          else (\<exists>p4 r'. p_skipped p4 = p_skipped p + (recv - enqueue) \<and>
                 (if p_rate p = 0
                  then (case path_write e False (p4, w2) of
                          Inl err \<Rightarrow> path_run e (p, w, r) = Inl err
                        | Inr (p5, w3) \<Rightarrow>
                            path_run e (p, w, r) = Inr (p5, w3, r') \<and>
                            p_skipped p5 = p_skipped p + (recv - enqueue))
                  else path_run e (p, w, r) = Inr (p4, w2, r')))) \<and>
         ((\<forall>p a xs c w. 0 \<le> fst (node_write e p a xs c w)) \<and> 0 \<le> recv \<longrightarrow>
          (\<exists>p' w' r'. path_run e (p, w, r) = Inr (p', w', r') \<and>
                       p_skipped p' = p_skipped p + (recv - enqueue)))"
proof -
  have first: "if recv < 0 then path_run e (p, w, r) = Inl Failed_to_receive
          else (\<exists>p4 r'. p_skipped p4 = p_skipped p + (recv - enqueue) \<and>
                 (if p_rate p = 0
                  then (case path_write e False (p4, w2) of
                          Inl err \<Rightarrow> path_run e (p, w, r) = Inl err
                        | Inr (p5, w3) \<Rightarrow>
                            path_run e (p, w, r) = Inr (p5, w3, r') \<and>
                            p_skipped p5 = p_skipped p + (recv - enqueue))
                  else path_run e (p, w, r) = Inr (p4, w2, r')))"
  proof (cases "recv < 0")
    case True
    with assms show ?thesis
      by (simp add: path_run_def Let_def)
  next
    case False
    obtain enqueued pos q1 where push:
      "queue_push_many e (p_queue p) (take (nat enqueue) smps3) (n_received (p_nodes p (p_in p)))
         = (enqueued, pos, q1)"
      by (metis prod.collapse)
    from path_run_pass [OF assms push False] obtain p4 where
      sk: "p_skipped p4 = p_skipped p + (recv - enqueue)" and
      run: "path_run e (p, w, r) =
                (if p_rate p = 0
                 then (case path_write e False (p4, w2) of
                         Inl err \<Rightarrow> Inl err
                       | Inr (p5, w3) \<Rightarrow>
                           Inr (p5, w3, r\<lparr>ready := ready r + int (length got) - enqueued, smps := smps3\<rparr>))
                 else Inr (p4, w2, r\<lparr>ready := ready r + int (length got) - enqueued, smps := smps3\<rparr>))"
      by blast
    have "p_skipped p5 = p_skipped p4" if "path_write e False (p4, w2) = Inr (p5, w3)" for p5 w3
      using path_write_frame [OF that] by (simp add: path_frame_def)
    with sk run have "p_skipped p4 = p_skipped p + (recv - enqueue) \<and>
                 (if p_rate p = 0
                  then (case path_write e False (p4, w2) of
                          Inl err \<Rightarrow> path_run e (p, w, r) = Inl err
                        | Inr (p5, w3) \<Rightarrow>
                            path_run e (p, w, r) =
                              Inr (p5, w3, r\<lparr>ready := ready r + int (length got) - enqueued, smps := smps3\<rparr>) \<and>
                            p_skipped p5 = p_skipped p + (recv - enqueue))
                  else path_run e (p, w, r) =
                         Inr (p4, w2, r\<lparr>ready := ready r + int (length got) - enqueued, smps := smps3\<rparr>))"
      by (auto split: sum.splits)
    then have "\<exists>p4 r'. p_skipped p4 = p_skipped p + (recv - enqueue) \<and>
                 (if p_rate p = 0
                  then (case path_write e False (p4, w2) of
                          Inl err \<Rightarrow> path_run e (p, w, r) = Inl err
                        | Inr (p5, w3) \<Rightarrow>
                            path_run e (p, w, r) = Inr (p5, w3, r') \<and>
                            p_skipped p5 = p_skipped p + (recv - enqueue))
                  else path_run e (p, w, r) = Inr (p4, w2, r'))"
      by blast
    with False show ?thesis
      by simp
  qed
  have second: "\<exists>p' w' r'. path_run e (p, w, r) = Inr (p', w', r') \<and>
                       p_skipped p' = p_skipped p + (recv - enqueue)"
    if wr: "\<forall>p a xs c w. 0 \<le> fst (node_write e p a xs c w)" and nn: "0 \<le> recv"
  proof -
    from nn first obtain p4 r' where
      *: "if p_rate p = 0
          then (case path_write e False (p4, w2) of
                  Inl err \<Rightarrow> path_run e (p, w, r) = Inl err
                | Inr (p5, w3) \<Rightarrow>
                    path_run e (p, w, r) = Inr (p5, w3, r') \<and>
                    p_skipped p5 = p_skipped p + (recv - enqueue))
          else path_run e (p, w, r) = Inr (p4, w2, r')" and
      sk: "p_skipped p4 = p_skipped p + (recv - enqueue)"
      by (auto simp: not_less [symmetric])
    from path_write_returns [OF wr, of False "(p4, w2)"] obtain p5 w3 where
      "path_write e False (p4, w2) = Inr (p5, w3)"
      by blast
    with * sk show ?thesis
      by (cases "p_rate p = 0") auto
  qed
  from first second show ?thesis
    by blast
qed

text \<open>
  The example of claim C7: a hook that skips every other sample, the input 1 to 10
  read in one batch, forwarding on arrival.  The destination \<open>B\<close> is sent the samples
  1, 3, 5, 7, 9 and the skipped counter goes from 0 to 5.
\<close>

theorem path_run_skipped_witness:
  "sample_get_many (sim [skip_every_other]) (p_pool (sim_path 10 16 16 0))
     (n_vectorize (p_nodes (sim_path 10 16 16 0) (p_in (sim_path 10 16 16 0))) - ready (receiver_init 10))
     = (replicate 10 0, 6) \<and>
   node_read (sim [skip_every_other]) ((sim_path 10 16 16 0)\<lparr>p_pool := 6\<rparr>) (p_in (sim_path 10 16 16 0))
     (fill (smps (receiver_init 10)) (replicate 10 0))
     (ready (receiver_init 10) + int (length (replicate 10 (0::nat)))) (sim_world_init one_to_ten [])
     = ((10, one_to_ten), \<lparr>sw_input = [], sw_output = [], sw_timer = []\<rparr>) \<and>
   hook_run (sim [skip_every_other]) ((sim_path 10 16 16 0)\<lparr>p_pool := 6\<rparr>) one_to_ten 10 HOOK_READ
     \<lparr>sw_input = [], sw_output = [], sw_timer = []\<rparr>
     = ((5, [1, 3, 5, 7, 9, 6, 7, 8, 9, 10]), \<lparr>sw_input = [], sw_output = [], sw_timer = []\<rparr>) \<and>
   observe_run (path_run (sim [skip_every_other])
                  (sim_path 10 16 16 0, sim_world_init one_to_ten [], receiver_init 10)) =
     Inr ((\<lparr>n_name = ''A'', n_vectorize = 10, n_received = 5, n_sent = 0\<rparr>,
           [\<lparr>n_name = ''B'', n_vectorize = 10, n_received = 0, n_sent = 5\<rparr>],
           [],
           \<lparr>sq_readers = 1, sq_slots = [(1, 0), (3, 0), (5, 0), (7, 0), (9, 0), (0, 0), (0, 0),
                 (0, 0), (0, 0), (0, 0), (0, 0), (0, 0), (0, 0), (0, 0), (0, 0), (0, 0)]\<rparr>,
           11, 0, 5, 0),
          \<lparr>sw_input = [], sw_output = [(''B'', [1, 3, 5, 7, 9])], sw_timer = []\<rparr>,
          \<lparr>ready = 5, smps = [1, 3, 5, 7, 9, 6, 7, 8, 9, 10]\<rparr>) \<and>
   (\<exists>p' w' r'. path_run (sim [skip_every_other])
                  (sim_path 10 16 16 0, sim_world_init one_to_ten [], receiver_init 10) = Inr (p', w', r') \<and>
                p_skipped p' = 0 + (10 - 5))"
proof -
  let ?e = "sim [skip_every_other]"
  let ?p = "sim_path 10 16 16 0"
  let ?w = "sim_world_init one_to_ten []"
  let ?r = "receiver_init 10"
  let ?w1 = "\<lparr>sw_input = [], sw_output = [], sw_timer = []\<rparr>"
  have get: "sample_get_many ?e (p_pool ?p) (n_vectorize (p_nodes ?p (p_in ?p)) - ready ?r) = (replicate 10 0, 6)"
    by code_simp
  have rd: "node_read ?e (?p\<lparr>p_pool := 6\<rparr>) (p_in ?p) (fill (smps ?r) (replicate 10 0))
              (ready ?r + int (length (replicate 10 (0::nat)))) ?w = ((10, one_to_ten), ?w1)"
    by code_simp
  have hk: "hook_run ?e (?p\<lparr>p_pool := 6\<rparr>) one_to_ten 10 HOOK_READ ?w1
              = ((5, [1, 3, 5, 7, 9, 6, 7, 8, 9, 10]), ?w1)"
    by code_simp
  have wr: "\<forall>p a xs c w. 0 \<le> fst (node_write ?e p a xs c w)"
    by (simp add: sim_def sim_write_def Let_def)
  have run: "observe_run (path_run ?e (?p, ?w, ?r)) =
     Inr ((\<lparr>n_name = ''A'', n_vectorize = 10, n_received = 5, n_sent = 0\<rparr>,
           [\<lparr>n_name = ''B'', n_vectorize = 10, n_received = 0, n_sent = 5\<rparr>],
           [],
           \<lparr>sq_readers = 1, sq_slots = [(1, 0), (3, 0), (5, 0), (7, 0), (9, 0), (0, 0), (0, 0),
                 (0, 0), (0, 0), (0, 0), (0, 0), (0, 0), (0, 0), (0, 0), (0, 0), (0, 0)]\<rparr>,
           11, 0, 5, 0),
          \<lparr>sw_input = [], sw_output = [(''B'', [1, 3, 5, 7, 9])], sw_timer = []\<rparr>,
          \<lparr>ready = 5, smps = [1, 3, 5, 7, 9, 6, 7, 8, 9, 10]\<rparr>)"
    by code_simp
  have zero: "p_skipped ?p = 0"
    by (simp add: sim_path_def sim_state_def)
  from path_run_skipped [OF get rd hk] wr
  have "\<exists>p' w' r'. path_run ?e (?p, ?w, ?r) = Inr (p', w', r') \<and> p_skipped p' = p_skipped ?p + (10 - 5)"
    by simp
  with zero have "\<exists>p' w' r'. path_run ?e (?p, ?w, ?r) = Inr (p', w', r') \<and> p_skipped p' = 0 + (10 - 5)"
    by simp
  with get rd hk run show ?thesis
    by blast
qed

text \<open>
  Claim C3, as amended.  With the queue of the specification, let a pass of the receive
  loop push the \<open>n = enqueue\<close> samples the hooks kept while the slot \<open>k < n\<close> places
  past the write cursor has not been passed by every reader (the queue is full for
  \<open>k = 0\<close>, nearly full otherwise).  Then the push truncates: it enqueues at most \<open>k\<close>
  samples, fewer than \<open>n\<close>.  The skipped counter is not increased by the shortfall: it
  is increased by \<open>recv - n\<close>, the number of samples the hooks filtered out, and by nothing
  else.  The write cursor \<open>in.received\<close> becomes the cursor the queue returns,
  \<open>ready\<close> is reduced by \<open>enqueued\<close> only, and the array \<open>smps\<close> is left as the hooks
  left it.  The pass returns at a rate other than 0, and at rate 0 unless the send
  routine is fatal.
\<close>

theorem path_run_truncated_push:
  assumes "sample_get_many e (p_pool p) (n_vectorize (p_nodes p (p_in p)) - ready r) = (got, pool1)"
      and "node_read e (p\<lparr>p_pool := pool1\<rparr>) (p_in p) (fill (smps r) got) (ready r + int (length got)) w
             = ((recv, smps2), w1)"
      and "hook_run e (p\<lparr>p_pool := pool1\<rparr>) smps2 recv HOOK_READ w1 = ((enqueue, smps3), w2)"
      and "queue_push_many e = sim_push_many"
      and "0 \<le> recv"
      and "k < nat enqueue" and "nat enqueue \<le> length smps3"
      and "k < length (sq_slots (p_queue p))"
      and "snd (sq_slots (p_queue p) ! sq_slot (p_queue p) (n_received (p_nodes p (p_in p)) + int k)) \<noteq> 0"
  shows "\<exists>enqueued pos q1 p4.
           sim_push_many (p_queue p) (take (nat enqueue) smps3) (n_received (p_nodes p (p_in p)))
             = (enqueued, pos, q1) \<and>
           enqueued \<le> int k \<and> enqueued < enqueue \<and>
           p_skipped p4 = p_skipped p + (recv - enqueue) \<and>
           n_received (p_nodes p4 (p_in p)) = pos \<and>
           (if p_rate p = 0
            then (case path_write e False (p4, w2) of
                    Inl err \<Rightarrow> path_run e (p, w, r) = Inl err
                  | Inr (p5, w3) \<Rightarrow>
                      path_run e (p, w, r) =
                        Inr (p5, w3, r\<lparr>ready := ready r + int (length got) - enqueued, smps := smps3\<rparr>) \<and>
                      p_skipped p5 = p_skipped p + (recv - enqueue) \<and>
                      n_received (p_nodes p5 (p_in p)) = pos)
            else path_run e (p, w, r) =
                   Inr (p4, w2, r\<lparr>ready := ready r + int (length got) - enqueued, smps := smps3\<rparr>))"
proof -
  obtain enqueued pos q1 where push:
    "sim_push_many (p_queue p) (take (nat enqueue) smps3) (n_received (p_nodes p (p_in p)))
       = (enqueued, pos, q1)"
    by (metis prod_cases3)
  from assms(6,7) have len: "k < length (take (nat enqueue) smps3)"
    by simp
  from sim_push_many_stops [OF push len assms(8,9)] have le: "enqueued \<le> int k" .
  with assms(6) have less: "enqueued < enqueue"
    by simp
  from push assms(4) have push': "queue_push_many e (p_queue p) (take (nat enqueue) smps3)
      (n_received (p_nodes p (p_in p))) = (enqueued, pos, q1)"
    by simp
  from assms(5) have nn: "\<not> recv < 0"
    by simp
  from path_run_pass [OF assms(1,2,3) push' nn] obtain p4 where
    sk: "p_skipped p4 = p_skipped p + (recv - enqueue)" and
    pin: "p_in p4 = p_in p" and
    cur: "n_received (p_nodes p4 (p_in p)) = pos" and
    run: "path_run e (p, w, r) =
              (if p_rate p = 0
               then (case path_write e False (p4, w2) of
                       Inl err \<Rightarrow> Inl err
                     | Inr (p5, w3) \<Rightarrow>
                         Inr (p5, w3, r\<lparr>ready := ready r + int (length got) - enqueued, smps := smps3\<rparr>))
               else Inr (p4, w2, r\<lparr>ready := ready r + int (length got) - enqueued, smps := smps3\<rparr>))"
    by blast
  have "p_skipped p5 = p_skipped p4 \<and> n_received (p_nodes p5 (p_in p)) = n_received (p_nodes p4 (p_in p))"
    if "path_write e False (p4, w2) = Inr (p5, w3)" for p5 w3
    using path_write_frame [OF that] pin by (simp add: path_frame_def)
  with sk cur run have "if p_rate p = 0
            then (case path_write e False (p4, w2) of
                    Inl err \<Rightarrow> path_run e (p, w, r) = Inl err
                  | Inr (p5, w3) \<Rightarrow>
                      path_run e (p, w, r) =
                        Inr (p5, w3, r\<lparr>ready := ready r + int (length got) - enqueued, smps := smps3\<rparr>) \<and>
                      p_skipped p5 = p_skipped p + (recv - enqueue) \<and>
                      n_received (p_nodes p5 (p_in p)) = pos)
            else path_run e (p, w, r) =
                   Inr (p4, w2, r\<lparr>ready := ready r + int (length got) - enqueued, smps := smps3\<rparr>)"
    by (auto split: sum.splits)
  with push le less sk cur show ?thesis
    by blast
qed

text \<open>
  Claim C3 as stated fails.  Two passes of the receive loop fill the queue of two slots
  with the samples 5 and 6.  The next pass reads sample 7, the hooks keep it (\<open>n = 1\<close>),
  the push enqueues nothing, and the skipped counter is what it was, not one more.
\<close>

theorem path_run_truncated_push_counterexample:
  "observe_threads (path_threads (sim []) [Receive, Receive]
                      (sim_path 1 2 4 2, sim_world_init [5, 6, 7] [], receiver_init 1)) =
     Inr ((snapshot full_queue_path, full_queue_world, full_queue_receiver), []) \<and>
   queue_push_many (sim []) (p_queue full_queue_path) [7]
     (n_received (p_nodes full_queue_path (p_in full_queue_path))) = (0, 2, p_queue full_queue_path) \<and>
   observe_run (path_run (sim []) (full_queue_path, full_queue_world, full_queue_receiver)) =
     Inr (snapshot (full_queue_path\<lparr>p_pool := 1\<rparr>), full_queue_world\<lparr>sw_input := []\<rparr>,
          \<lparr>ready = 1, smps = [7]\<rparr>) \<and>
   p_skipped (full_queue_path\<lparr>p_pool := 1\<rparr>) = p_skipped full_queue_path \<and>
   p_skipped (full_queue_path\<lparr>p_pool := 1\<rparr>) \<noteq> p_skipped full_queue_path + (1 - 0)"
  by code_simp

text \<open>The amended claim C3 at the full queue: sample 7 is not enqueued and not counted.\<close>

theorem path_run_truncated_push_witness:
  "sample_get_many (sim []) (p_pool full_queue_path)
     (n_vectorize (p_nodes full_queue_path (p_in full_queue_path)) - ready full_queue_receiver) = ([0], 1) \<and>
   node_read (sim []) (full_queue_path\<lparr>p_pool := 1\<rparr>) (p_in full_queue_path)
     (fill (smps full_queue_receiver) [0]) (ready full_queue_receiver + int (length [0::nat])) full_queue_world
     = ((1, [7]), full_queue_world\<lparr>sw_input := []\<rparr>) \<and>
   hook_run (sim []) (full_queue_path\<lparr>p_pool := 1\<rparr>) [7] 1 HOOK_READ (full_queue_world\<lparr>sw_input := []\<rparr>)
     = ((1, [7]), full_queue_world\<lparr>sw_input := []\<rparr>) \<and>
   (0::int) \<le> 1 \<and> 0 < nat 1 \<and> nat 1 \<le> length [7::nat] \<and> 0 < length (sq_slots (p_queue full_queue_path)) \<and>
   snd (sq_slots (p_queue full_queue_path) !
        sq_slot (p_queue full_queue_path)
          (n_received (p_nodes full_queue_path (p_in full_queue_path)) + int 0)) \<noteq> 0 \<and>
   sim_push_many (p_queue full_queue_path) (take (nat 1) [7])
     (n_received (p_nodes full_queue_path (p_in full_queue_path))) = (0, 2, p_queue full_queue_path) \<and>
   (\<exists>p4. path_run (sim []) (full_queue_path, full_queue_world, full_queue_receiver) =
            Inr (p4, full_queue_world\<lparr>sw_input := []\<rparr>, \<lparr>ready = 1, smps = [7]\<rparr>) \<and>
          p_skipped p4 = p_skipped full_queue_path + (1 - 1) \<and>
          n_received (p_nodes p4 (p_in full_queue_path)) = 2)"
proof -
  let ?e = "sim []"
  let ?w1 = "full_queue_world\<lparr>sw_input := []\<rparr>"
  have get: "sample_get_many ?e (p_pool full_queue_path)
               (n_vectorize (p_nodes full_queue_path (p_in full_queue_path)) - ready full_queue_receiver)
               = ([0], 1)"
    by code_simp
  have rd: "node_read ?e (full_queue_path\<lparr>p_pool := 1\<rparr>) (p_in full_queue_path)
              (fill (smps full_queue_receiver) [0]) (ready full_queue_receiver + int (length [0::nat]))
              full_queue_world = ((1, [7]), ?w1)"
    by code_simp
  have hk: "hook_run ?e (full_queue_path\<lparr>p_pool := 1\<rparr>) [7] 1 HOOK_READ ?w1 = ((1, [7]), ?w1)"
    by code_simp
  have q: "queue_push_many ?e = sim_push_many"
    by (simp add: sim_def)
  have nn: "(0::int) \<le> 1"
    by simp
  have k: "0 < nat 1" "nat 1 \<le> length [7::nat]" "0 < length (sq_slots (p_queue full_queue_path))"
    by (simp_all add: full_queue_path_def sim_state_def)
  have pending: "snd (sq_slots (p_queue full_queue_path) !
        sq_slot (p_queue full_queue_path)
          (n_received (p_nodes full_queue_path (p_in full_queue_path)) + int 0)) \<noteq> 0"
    by code_simp
  have push: "sim_push_many (p_queue full_queue_path) (take (nat 1) [7])
     (n_received (p_nodes full_queue_path (p_in full_queue_path))) = (0, 2, p_queue full_queue_path)"
    by code_simp
  have rate: "p_rate full_queue_path \<noteq> 0"
    by (simp add: full_queue_path_def sim_state_def)
  have r: "full_queue_receiver\<lparr>ready := ready full_queue_receiver + int (length [0::nat]) - 0, smps := [7]\<rparr>
             = \<lparr>ready = 1, smps = [7]\<rparr>"
    by (simp add: full_queue_receiver_def)
  from path_run_truncated_push [OF get rd hk q nn k pending] push rate r
  have "\<exists>p4. path_run ?e (full_queue_path, full_queue_world, full_queue_receiver) =
            Inr (p4, ?w1, \<lparr>ready = 1, smps = [7]\<rparr>) \<and>
          p_skipped p4 = p_skipped full_queue_path + (1 - 1) \<and>
          n_received (p_nodes p4 (p_in full_queue_path)) = 2"
    by auto
  with get rd hk nn k pending push show ?thesis
    by blast
qed

text \<open>
  Claim C1, as amended.  A tick of the send thread waits for the timer and adds the
  expirations to the overrun counter if they are more than one.  It then runs the send
  routine if \<open>in.received\<close> is not 0 and the \<open>HOOK_ASYNC\<close> chain returns 0, and then
  always in resend mode, whether or not samples have arrived since the previous send:
  for each destination in order, the send routine peeks up to \<open>vectorize\<close> samples of
  the queue starting at position \<open>in.received - vectorize\<close>, runs \<open>HOOK_WRITE\<close> on
  them and writes what is left to the destination (\<open>resend_last_vector\<close>); a negative
  count from a destination is fatal.  A tick that returns has changed nothing in the path
  but the overrun counter: every cursor, the queue, the pool and the nodes are what they
  were.
\<close>

theorem path_run_async_resend:
  "path_run_async e (p, w) =
     (case timerfd_wait e w of
        (k, w1) \<Rightarrow>
          if n_received (p_nodes p (p_in p)) = 0
          then Inr (p\<lparr>p_overrun := p_overrun p + (if 1 < k then k else 0)\<rparr>, w1)
          else
            (case hook_run e (p\<lparr>p_overrun := p_overrun p + (if 1 < k then k else 0)\<rparr>) [] 0 HOOK_ASYNC w1 of
               ((c, s), w2) \<Rightarrow>
                 if c \<noteq> 0 then Inr (p\<lparr>p_overrun := p_overrun p + (if 1 < k then k else 0)\<rparr>, w2)
                 else
                   (case resend_last_vector e (p\<lparr>p_overrun := p_overrun p + (if 1 < k then k else 0)\<rparr>)
                           (p_destinations p) w2 of
                      Inl err \<Rightarrow> Inl err
                    | Inr w3 \<Rightarrow> Inr (p\<lparr>p_overrun := p_overrun p + (if 1 < k then k else 0)\<rparr>, w3)))) \<and>
   (\<forall>p' w'. path_run_async e (p, w) = Inr (p', w') \<longrightarrow>
      cursors p' = cursors p \<and> p_nodes p' = p_nodes p \<and> p_in p' = p_in p \<and>
      p_destinations p' = p_destinations p \<and> p_queue p' = p_queue p \<and> p_pool p' = p_pool p)"
proof (intro conjI allI impI)
  obtain k w1 where wait: "timerfd_wait e w = (k, w1)"
    by (cases "timerfd_wait e w")
  show "path_run_async e (p, w) =
     (case timerfd_wait e w of
        (k, w1) \<Rightarrow>
          if n_received (p_nodes p (p_in p)) = 0
          then Inr (p\<lparr>p_overrun := p_overrun p + (if 1 < k then k else 0)\<rparr>, w1)
          else
            (case hook_run e (p\<lparr>p_overrun := p_overrun p + (if 1 < k then k else 0)\<rparr>) [] 0 HOOK_ASYNC w1 of
               ((c, s), w2) \<Rightarrow>
                 if c \<noteq> 0 then Inr (p\<lparr>p_overrun := p_overrun p + (if 1 < k then k else 0)\<rparr>, w2)
                 else
                   (case resend_last_vector e (p\<lparr>p_overrun := p_overrun p + (if 1 < k then k else 0)\<rparr>)
                           (p_destinations p) w2 of
                      Inl err \<Rightarrow> Inl err
                    | Inr w3 \<Rightarrow> Inr (p\<lparr>p_overrun := p_overrun p + (if 1 < k then k else 0)\<rparr>, w3))))"
    unfolding wait prod.case
    by (rule path_run_async_tick_resend [OF wait refl])
next
  fix p' w'
  assume run: "path_run_async e (p, w) = Inr (p', w')"
  obtain k w1 where wait: "timerfd_wait e w = (k, w1)"
    by (cases "timerfd_wait e w")
  define n where "n = p_overrun p + (if 1 < k then k else 0)"
  from run path_run_async_tick_resend [OF wait refl, of p]
  have p': "p' = p\<lparr>p_overrun := n\<rparr>"
    unfolding n_def [symmetric]
    by (auto split: prod.splits if_splits sum.splits)
  show "cursors p' = cursors p" by (simp add: p' cursors_def)
  show "p_nodes p' = p_nodes p" by (simp add: p')
  show "p_in p' = p_in p" by (simp add: p')
  show "p_destinations p' = p_destinations p" by (simp add: p')
  show "p_queue p' = p_queue p" by (simp add: p')
  show "p_pool p' = p_pool p" by (simp add: p')
qed

text \<open>
  Claim C1 as stated fails.  Sample 5 is received and sent at the first tick; then
  sample 6 arrives (\<open>in.received\<close> goes from 1 to 2).  At the second tick the send
  thread still runs the send routine in resend mode, and not as a send from the cursor:
  \<open>B\<close> is sent sample 6, the sample before the write cursor, and its cursor stays at 0,
  where a send from the cursor would send sample 5 and move the cursor to 1.
\<close>

theorem path_run_async_resend_counterexample:
  "observe_threads (path_threads (sim []) [Receive, Send]
                      (sim_path 1 4 4 2, sim_world_init [5, 6] [], receiver_init 1)) =
     Inr ((snapshot (sim_state 1 1 0 [(5, 1), (0, 0), (0, 0), (0, 0)] 3 2 0 0),
           \<lparr>sw_input = [6], sw_output = [(''B'', [5])], sw_timer = []\<rparr>,
           \<lparr>ready = 0, smps = [5]\<rparr>), [1]) \<and>
   observe_threads (path_threads (sim []) [Receive, Send, Receive]
                      (sim_path 1 4 4 2, sim_world_init [5, 6] [], receiver_init 1)) =
     Inr ((snapshot resend_path, resend_world, \<lparr>ready = 0, smps = [6]\<rparr>), [1]) \<and>
   cursors (sim_state 1 1 0 [(5, 1), (0, 0), (0, 0), (0, 0)] 3 2 0 0) = (1, [0]) \<and>
   cursors resend_path = (2, [0]) \<and>
   observe (path_run_async (sim []) (resend_path, resend_world)) =
     Inr (snapshot resend_path, resend_world\<lparr>sw_output := [(''B'', [5]), (''B'', [6])]\<rparr>) \<and>
   resend_last_vector (sim []) resend_path (p_destinations resend_path) resend_world =
     Inr (resend_world\<lparr>sw_output := [(''B'', [5]), (''B'', [6])]\<rparr>) \<and>
   observe (path_write (sim []) False (resend_path, resend_world)) =
     Inr (snapshot (sim_state 1 2 1 [(5, 0), (6, 1), (0, 0), (0, 0)] 3 2 0 0),
          resend_world\<lparr>sw_output := [(''B'', [5]), (''B'', [5])]\<rparr>) \<and>
   cursors (sim_state 1 2 1 [(5, 0), (6, 1), (0, 0), (0, 0)] 3 2 0 0) = (2, [1]) \<and>
   observe (path_run_async (sim []) (resend_path, resend_world)) \<noteq>
     observe (path_write (sim []) False (resend_path, resend_world))"
  by code_simp

text \<open>The amended claim C1 at the second tick of that run.\<close>

theorem path_run_async_resend_witness:
  "timerfd_wait (sim []) resend_world = (1, resend_world) \<and>
   n_received (p_nodes resend_path (p_in resend_path)) = 2 \<and>
   hook_run (sim []) resend_path [] 0 HOOK_ASYNC resend_world = ((0, []), resend_world) \<and>
   queue_get_many (sim []) (p_queue resend_path) 1 (2 - 1) = [6] \<and>
   resend_last_vector (sim []) resend_path (p_destinations resend_path) resend_world
     = Inr (resend_world\<lparr>sw_output := [(''B'', [5]), (''B'', [6])]\<rparr>) \<and>
   path_run_async (sim []) (resend_path, resend_world)
     = Inr (resend_path, resend_world\<lparr>sw_output := [(''B'', [5]), (''B'', [6])]\<rparr>) \<and>
   cursors resend_path = (2, [0])"
proof -
  let ?e = "sim []"
  let ?w' = "resend_world\<lparr>sw_output := [(''B'', [5]), (''B'', [6])]\<rparr>"
  have wait: "timerfd_wait ?e resend_world = (1, resend_world)"
    by code_simp
  have received: "n_received (p_nodes resend_path (p_in resend_path)) = 2"
    by code_simp
  have hk: "hook_run ?e resend_path [] 0 HOOK_ASYNC resend_world = ((0, []), resend_world)"
    by code_simp
  have peek: "queue_get_many ?e (p_queue resend_path) 1 (2 - 1) = [6]"
    by code_simp
  have resend: "resend_last_vector ?e resend_path (p_destinations resend_path) resend_world = Inr ?w'"
    by code_simp
  have cur: "cursors resend_path = (2, [0])"
    by code_simp
  have same: "resend_path\<lparr>p_overrun := p_overrun resend_path\<rparr> = resend_path"
    by simp
  from path_run_async_resend [of ?e resend_path resend_world]
  have run: "path_run_async ?e (resend_path, resend_world) = Inr (resend_path, ?w')"
    by (simp add: wait received hk resend same)
  from wait received hk peek resend run cur show ?thesis
    by blast
qed

text \<open>
  Claim C2, as amended.  A tick of the send thread that reports \<open>k\<close> expirations adds
  \<open>k\<close> to the overrun counter if \<open>k > 1\<close> and leaves the counter as it is otherwise, and
  it calls the send routine at most once: once, in resend mode, if \<open>in.received\<close> is not
  0 and the \<open>HOOK_ASYNC\<close> chain returns 0, and not at all otherwise.  So over any run of
  the receive and the send thread, in any order of their passes, the counter grows by the
  sum of the expirations of the ticks that reported more than one; and such a run goes on
  as long as no node reports a negative count.
\<close>

theorem path_run_async_overrun:
  "(timerfd_wait e w = (k, w1) \<longrightarrow>
      path_run_async e (p, w) =
        (if n_received (p_nodes p (p_in p)) = 0
         then Inr (p\<lparr>p_overrun := p_overrun p + (if 1 < k then k else 0)\<rparr>, w1)
         else
           (case hook_run e (p\<lparr>p_overrun := p_overrun p + (if 1 < k then k else 0)\<rparr>) [] 0 HOOK_ASYNC w1 of
              ((c, s), w2) \<Rightarrow>
                if c \<noteq> 0 then Inr (p\<lparr>p_overrun := p_overrun p + (if 1 < k then k else 0)\<rparr>, w2)
                else path_write e True (p\<lparr>p_overrun := p_overrun p + (if 1 < k then k else 0)\<rparr>, w2))) \<and>
      (\<forall>p' w'. path_run_async e (p, w) = Inr (p', w') \<longrightarrow>
         p_overrun p' = p_overrun p + (if 1 < k then k else 0))) \<and>
   (path_threads e ts (p, w, r) = Inr ((pn, wn, rn), ks) \<longrightarrow>
      p_overrun pn = p_overrun p + sum_list (filter (\<lambda>k. 1 < k) ks) \<and>
      length ks = length (filter (\<lambda>t. t = Send) ts)) \<and>
   ((\<forall>p a xs c w. 0 \<le> fst (node_write e p a xs c w)) \<and>
    (\<forall>p a xs c w. 0 \<le> fst (fst (node_read e p a xs c w))) \<longrightarrow>
      (\<exists>pn wn rn ks. path_threads e ts (p, w, r) = Inr ((pn, wn, rn), ks) \<and>
         p_overrun pn = p_overrun p + sum_list (filter (\<lambda>k. 1 < k) ks)))"
proof (intro conjI impI allI)
  assume "timerfd_wait e w = (k, w1)"
  then show "path_run_async e (p, w) =
        (if n_received (p_nodes p (p_in p)) = 0
         then Inr (p\<lparr>p_overrun := p_overrun p + (if 1 < k then k else 0)\<rparr>, w1)
         else
           (case hook_run e (p\<lparr>p_overrun := p_overrun p + (if 1 < k then k else 0)\<rparr>) [] 0 HOOK_ASYNC w1 of
              ((c, s), w2) \<Rightarrow>
                if c \<noteq> 0 then Inr (p\<lparr>p_overrun := p_overrun p + (if 1 < k then k else 0)\<rparr>, w2)
                else path_write e True (p\<lparr>p_overrun := p_overrun p + (if 1 < k then k else 0)\<rparr>, w2)))"
    by (simp add: path_run_async_tick)
next
  fix p' w'
  assume "timerfd_wait e w = (k, w1)" and "path_run_async e (p, w) = Inr (p', w')"
  with path_run_async_adds_expirations [of e p w p' w']
  show "p_overrun p' = p_overrun p + (if 1 < k then k else 0)"
    by simp
next
  assume run: "path_threads e ts (p, w, r) = Inr ((pn, wn, rn), ks)"
  from path_threads_overrun [OF run]
  show "p_overrun pn = p_overrun p + sum_list (filter (\<lambda>k. 1 < k) ks)"
    by blast
  from path_threads_overrun [OF run]
  show "length ks = length (filter (\<lambda>t. t = Send) ts)"
    by blast
next
  assume a: "(\<forall>p a xs c w. 0 \<le> fst (node_write e p a xs c w)) \<and>
    (\<forall>p a xs c w. 0 \<le> fst (fst (node_read e p a xs c w)))"
  then have wr: "\<forall>p a xs c w. 0 \<le> fst (node_write e p a xs c w)"
        and rd: "\<forall>p a xs c w. 0 \<le> fst (fst (node_read e p a xs c w))"
    by blast+
  from path_threads_returns [OF wr rd, of ts p w r] obtain pn wn rn ks where
    run: "path_threads e ts (p, w, r) = Inr ((pn, wn, rn), ks)"
    by blast
  from path_threads_overrun [OF run] run
  show "\<exists>pn wn rn ks. path_threads e ts (p, w, r) = Inr ((pn, wn, rn), ks) \<and>
          p_overrun pn = p_overrun p + sum_list (filter (\<lambda>k. 1 < k) ks)"
    by blast
qed

text \<open>
  Claim C2 as stated fails.  A tick that reports 3 expirations takes the overrun
  counter from 0 to 3, not to 2; and on a path that has received nothing, the same tick
  sends no batch at all.
\<close>

theorem path_run_async_overrun_counterexample:
  "p_overrun overrun_path = 0 \<and>
   timerfd_wait (sim []) overrun_world = (3, overrun_world\<lparr>sw_timer := [1, 2]\<rparr>) \<and>
   observe (path_run_async (sim []) (overrun_path, overrun_world)) =
     Inr (snapshot (overrun_path\<lparr>p_overrun := 3\<rparr>),
          \<lparr>sw_input = [], sw_output = [(''B'', [5])], sw_timer = [1, 2]\<rparr>) \<and>
   p_overrun (overrun_path\<lparr>p_overrun := 3\<rparr>) \<noteq> p_overrun overrun_path + (3 - 1) \<and>
   observe (path_run_async (sim []) (sim_path 1 4 4 2, overrun_world)) =
     Inr (snapshot ((sim_path 1 4 4 2)\<lparr>p_overrun := 3\<rparr>),
          \<lparr>sw_input = [], sw_output = [], sw_timer = [1, 2]\<rparr>)"
  by code_simp

text \<open>
  The amended claim C2 on three ticks that report three, one and two expirations, with a
  pass of the receive loop in between: the counter goes from 0 to 5, and each tick sends
  one batch.
\<close>

theorem path_run_async_overrun_witness:
  "timerfd_wait (sim []) overrun_world = (3, overrun_world\<lparr>sw_timer := [1, 2]\<rparr>) \<and>
   observe (path_run_async (sim []) (overrun_path, overrun_world)) =
     Inr (snapshot (overrun_path\<lparr>p_overrun := 3\<rparr>),
          \<lparr>sw_input = [], sw_output = [(''B'', [5])], sw_timer = [1, 2]\<rparr>) \<and>
   observe_threads (path_threads (sim []) [Send, Receive, Send, Send]
                      (overrun_path, overrun_world, receiver_init 1)) =
     Inr ((snapshot (sim_state 1 1 0 [(5, 1), (0, 0), (0, 0), (0, 0)] 2 2 0 5),
           \<lparr>sw_input = [], sw_output = [(''B'', [5]), (''B'', [5]), (''B'', [5])], sw_timer = []\<rparr>,
           \<lparr>ready = 1, smps = [0]\<rparr>), [3, 1, 2]) \<and>
   (\<exists>p'. path_run_async (sim []) (overrun_path, overrun_world)
            = Inr (p', \<lparr>sw_input = [], sw_output = [(''B'', [5])], sw_timer = [1, 2]\<rparr>) \<and>
          p_overrun p' = p_overrun overrun_path + 3) \<and>
   (\<exists>pn wn rn. path_threads (sim []) [Send, Receive, Send, Send] (overrun_path, overrun_world, receiver_init 1)
                  = Inr ((pn, wn, rn), [3, 1, 2]) \<and>
                p_overrun pn = p_overrun overrun_path + sum_list (filter (\<lambda>k. 1 < k) [3, 1, 2]) \<and>
                length [3, 1, 2 :: nat] = length (filter (\<lambda>t. t = Send) [Send, Receive, Send, Send])) \<and>
   p_overrun overrun_path + sum_list (filter (\<lambda>k. 1 < k) [3, 1, 2]) = 5"
proof -
  let ?e = "sim []"
  let ?ts = "[Send, Receive, Send, Send]"
  let ?w1 = "\<lparr>sw_input = [], sw_output = [(''B'', [5])], sw_timer = [1, 2]\<rparr>"
  let ?wn = "\<lparr>sw_input = [], sw_output = [(''B'', [5]), (''B'', [5]), (''B'', [5])], sw_timer = []\<rparr>"
  have wait: "timerfd_wait ?e overrun_world = (3, overrun_world\<lparr>sw_timer := [1, 2]\<rparr>)"
    by code_simp
  have tick: "observe (path_run_async ?e (overrun_path, overrun_world)) =
     Inr (snapshot (overrun_path\<lparr>p_overrun := 3\<rparr>), ?w1)"
    by code_simp
  from observe_Inr [OF tick] obtain p1 where
    tick1: "path_run_async ?e (overrun_path, overrun_world) = Inr (p1, ?w1)"
    by blast
  have run: "observe_threads (path_threads ?e ?ts (overrun_path, overrun_world, receiver_init 1)) =
     Inr ((snapshot (sim_state 1 1 0 [(5, 1), (0, 0), (0, 0), (0, 0)] 2 2 0 5), ?wn,
           \<lparr>ready = 1, smps = [0]\<rparr>), [3, 1, 2])"
    by code_simp
  from observe_threads_Inr [OF run] obtain pn where run1:
    "path_threads ?e ?ts (overrun_path, overrun_world, receiver_init 1)
       = Inr ((pn, ?wn, \<lparr>ready = 1, smps = [0]\<rparr>), [3, 1, 2])"
    by blast
  have wr: "\<forall>p a xs c w. 0 \<le> fst (node_write ?e p a xs c w)"
    by (simp add: sim_def sim_write_def Let_def)
  have rd: "\<forall>p a xs c w. 0 \<le> fst (fst (node_read ?e p a xs c w))"
    by (simp add: sim_def sim_read_def Let_def)
  have five: "p_overrun overrun_path + sum_list (filter (\<lambda>k. 1 < k) [3, 1, 2]) = 5"
    by (simp add: overrun_path_def sim_state_def)
  note inst = path_run_async_overrun [of ?e overrun_world 3 "overrun_world\<lparr>sw_timer := [1, 2]\<rparr>"
      overrun_path ?ts "receiver_init 1" pn ?wn "\<lparr>ready = 1, smps = [0]\<rparr>" "[3, 1, 2]"]
  from inst wait tick1 have a: "p_overrun p1 = p_overrun overrun_path + 3"
    by simp
  from inst run1 have b: "p_overrun pn = p_overrun overrun_path + sum_list (filter (\<lambda>k. 1 < k) [3, 1, 2]) \<and>
      length [3, 1, 2 :: nat] = length (filter (\<lambda>t. t = Send) ?ts)"
    by blast
  from inst wr rd have "\<exists>pn wn rn ks. path_threads ?e ?ts (overrun_path, overrun_world, receiver_init 1)
      = Inr ((pn, wn, rn), ks)"
    by blast
  with wait tick tick1 a run run1 b five show ?thesis
    by blast
qed

section \<open>Results on C37.118 frames\<close>

text \<open>The definitions that evaluating \<open>serialize\<close> and \<open>deserialize\<close> on given bytes unfolds.\<close>

lemmas serialize_defs =
  serialize_def serialize_Frame_def serialize_type_def serialize_message_def
  serialize_Command_def serialize_Header_def serialize_Config1_def serialize_PmuConfig1_def
  serialize_Data_def serialize_PmuData_def serialize_Phasor_def serialize_Analog_def
  serialize_Freq_def serialize_pair16_def serialize_pair32_def serialize_Name1_def
  serialize_uint16_def serialize_uint32_def copy_from_def require_def writing_def
  serialize_Placeholder_def replace_def parser_slice_def Parser_def htons_def htonl_def
  calculate_crc_def crc_step_def ctx_pmu_def num_pmu_def phnmr_def annmr_def dgnmr_def
  reset_def next_pmu_def

lemmas deserialize_defs =
  deserialize_def deserialize_Frame_def deserialize_Frame_fields_def
  deserialize_Frame_content_def deserialize_Frame_message_def deserialize_Frame_crc_def
  deserialize_type_def deserialize_message_def deserialize_Command_def deserialize_Header_def
  deserialize_Config1_def deserialize_PmuConfig1_def deserialize_Data_def
  deserialize_PmuData_def deserialize_Phasor_def deserialize_Analog_def deserialize_Freq_def
  deserialize_pair16_def deserialize_pair32_def deserialize_Name1_def deserialize_uint16_def
  deserialize_uint32_def copy_to_def require_def reading_def parser_slice_def Parser_def
  subparser_def remaining_def resize_def ntohs_def ntohl_def calculate_crc_def crc_step_def
  ctx_pmu_def num_pmu_def phnmr_def annmr_def dgnmr_def reset_def next_pmu_def
  default_frame_def default_config1_def default_pmu_config1_def default_pmu_data_def
  pmu_config1_locals_def

lemma replicate_numeral_Cons: "replicate (numeral k) x = x # replicate (pred_numeral k) x"
  by (simp add: numeral_eq_Suc)

text \<open>The checksum is CRC-CCITT-false: its check value for the digits 1 to 9 is \<open>0x29B1\<close>.\<close>

lemma calculate_crc_check:
  "calculate_crc [0x31, 0x32, 0x33, 0x34, 0x35, 0x36, 0x37, 0x38, 0x39] 9 = 0x29B1"
  by (simp add: calculate_crc_def crc_step_def)

text \<open>What \<open>serialize\<close> writes for the command frame and for the data frame.\<close>

lemma serialize_command_frame:
  "serialize (replicate 32 0) None command_frame = Inr command_bytes"
  by (simp add: serialize_defs replicate_numeral_Cons command_frame_def command_bytes_def)

lemma serialize_data_frame:
  "serialize (replicate 64 0) (Some two_pmus) data_frame = Inr data_bytes"
  by (simp add: serialize_defs replicate_numeral_Cons data_frame_def data_bytes_def two_pmus_def
      pmu_one_def)

text \<open>What \<open>deserialize\<close> reads from the command frame with frame type \<open>0x40\<close>.\<close>

lemma deserialize_command_wire: "deserialize command_wire None = Inr command_frame"
  by (simp add: deserialize_defs command_wire_def command_frame_def)

text \<open>
  Without a bound config no deserialiser changes the context, and a frame that
  \<open>deserialize(Frame *)\<close> accepts is no data frame.
\<close>

lemma deserialize_message_index:
  "deserialize_message p m = (r, m1, p1) \<Longrightarrow> message_index m1 = message_index m"
  by (cases m) (auto simp: deserialize_message_def split: prod.splits)

lemma deserialize_message_Data_no_context:
  "pcontext p = None \<Longrightarrow> deserialize_message p (Data d) = (Inl MissingConfig, Data d, p)"
  by (simp add: deserialize_message_def deserialize_Data_def)

lemma deserialize_type_index:
  "deserialize_type ty = Some m \<Longrightarrow> message_index m = 0 \<Longrightarrow> m = Data []"
  by (auto simp: deserialize_type_def split: if_splits)

lemma subparser_no_context: "pcontext p = None \<Longrightarrow> pcontext (subparser p a b) = None"
  by (simp add: subparser_def Parser_def)

lemma require_context: "require p n = (r, p1) \<Longrightarrow> pcontext p1 = pcontext p"
  by (auto simp: require_def split: if_splits)

lemma copy_to_context: "copy_to p a n = (r, bs, p1) \<Longrightarrow> pcontext p1 = pcontext p"
  by (auto simp: copy_to_def split: prod.splits sum.splits dest: require_context)

lemma deserialize_uint16_context: "deserialize_uint16 p i = (r, v, p1) \<Longrightarrow> pcontext p1 = pcontext p"
  by (auto simp: deserialize_uint16_def split: prod.splits sum.splits dest: copy_to_context)

lemma deserialize_uint32_context: "deserialize_uint32 p i = (r, v, p1) \<Longrightarrow> pcontext p1 = pcontext p"
  by (auto simp: deserialize_uint32_def split: prod.splits sum.splits dest: copy_to_context)

lemma reading_uint16_context:
  "reading deserialize_uint16 g s (p, x) = (r, p1, y) \<Longrightarrow> pcontext p1 = pcontext p"
  by (auto simp: reading_def Let_def split: prod.splits dest: deserialize_uint16_context)

lemma reading_uint32_context:
  "reading deserialize_uint32 g s (p, x) = (r, p1, y) \<Longrightarrow> pcontext p1 = pcontext p"
  by (auto simp: reading_def Let_def split: prod.splits dest: deserialize_uint32_context)

lemma deserialize_Frame_fields_context:
  assumes "deserialize_Frame_fields p f = (r, p1, y)"
  shows "pcontext p1 = pcontext p"
  using assms unfolding deserialize_Frame_fields_def
  by (auto split: prod.splits sum.splits
      dest!: reading_uint16_context reading_uint32_context)

lemma deserialize_Frame_crc_message:
  "deserialize_Frame_crc p f c = (r, f1, p1) \<Longrightarrow> f1 = f"
  by (auto simp: deserialize_Frame_crc_def split: prod.splits sum.splits if_splits)

lemma deserialize_Frame_message_no_context:
  assumes "pcontext p = None"
      and "deserialize_Frame_message p f sync messagesize c = (Inr n, f1, p1)"
  shows "message_index (f_message f1) \<noteq> 0"
proof (cases "deserialize_type (sync AND 0xF0)")
  case None
  with assms(2) show ?thesis
    by (simp add: deserialize_Frame_message_def)
next
  case (Some m0)
  obtain r p2 where req: "require p messagesize = (r, p2)"
    by (cases "require p messagesize")
  show ?thesis
  proof (cases r)
    case (Inl e)
    with assms(2) Some req show ?thesis
      by (simp add: deserialize_Frame_message_def)
  next
    case (Inr old)
    have ctx: "pcontext (subparser p2 old messagesize) = None"
      using require_context [OF req] assms(1) by (simp add: subparser_no_context)
    obtain r2 m1 mp where msg: "deserialize_message (subparser p2 old messagesize) m0 = (r2, m1, mp)"
      by (cases "deserialize_message (subparser p2 old messagesize) m0")
    from assms(2) Some req Inr msg obtain k where ok: "r2 = Inr k"
      and crc: "deserialize_Frame_crc p2 (f\<lparr>f_message := m1\<rparr>) c = (Inr n, f1, p1)"
      by (cases r2) (simp_all add: deserialize_Frame_message_def)
    have f1: "f_message f1 = m1"
      using deserialize_Frame_crc_message [OF crc] by simp
    have idx: "message_index m1 = message_index m0"
      using deserialize_message_index [OF msg] .
    show ?thesis
    proof
      assume "message_index (f_message f1) = 0"
      with f1 idx have "message_index m0 = 0"
        by simp
      with Some have "m0 = Data []"
        by (rule deserialize_type_index)
      with msg ok deserialize_message_Data_no_context [OF ctx, of "[]"] show False
        by simp
    qed
  qed
qed

lemma deserialize_Frame_content_no_context:
  assumes "pcontext p = None"
      and "deserialize_Frame_content p f sync framesize result = (Inr n, f1, p1)"
  shows "message_index (f_message f1) \<noteq> 0"
  using assms
  by (auto simp: deserialize_Frame_content_def Let_def split: if_splits sum.splits
      dest: deserialize_Frame_message_no_context)

lemma deserialize_Frame_no_context:
  assumes "pcontext p = None" and "deserialize_Frame p f = (Inr n, f1, p1)"
  shows "message_index (f_message f1) \<noteq> 0"
proof -
  obtain r pa sync framesize fa
    where hd: "deserialize_Frame_fields p f = (r, pa, sync, framesize, fa)"
    by (cases "deserialize_Frame_fields p f")
  have ctx: "pcontext pa = None"
    using deserialize_Frame_fields_context [OF hd] assms(1) by simp
  from assms(2) hd obtain k where "deserialize_Frame_content pa fa sync framesize k = (Inr n, f1, p1)"
    by (cases r) (simp_all add: deserialize_Frame_def)
  with ctx show ?thesis
    by (rule deserialize_Frame_content_no_context)
qed


text \<open>
  Claim C6.  For every byte buffer and every position of the cursor,
  \<open>deserialize(Data *)\<close> on a parser with no bound config returns the missing-config
  error, and it leaves the object behind its pointer and the parser as they were: no
  value is produced.  So deserialising a frame from any bytes with no bound config never
  yields a data frame; and for the bytes of a data frame (intact sync word and frame
  size) the error is missing-config.
\<close>

theorem deserialize_Data_missing_config:
  "deserialize_Data \<lparr>buf = buffer, cursor = c, pcontext = None\<rparr> d
     = (Inl MissingConfig, d, \<lparr>buf = buffer, cursor = c, pcontext = None\<rparr>) \<and>
   (case deserialize buffer None of Inl e \<Rightarrow> True | Inr f \<Rightarrow> message_index (f_message f) \<noteq> 0) \<and>
   deserialize empty_data_bytes None = Inl MissingConfig"
proof (intro conjI)
  show "deserialize_Data \<lparr>buf = buffer, cursor = c, pcontext = None\<rparr> d
     = (Inl MissingConfig, d, \<lparr>buf = buffer, cursor = c, pcontext = None\<rparr>)"
    by (simp add: deserialize_Data_def)
next
  have ctx: "pcontext (Parser buffer None) = None"
    by (simp add: Parser_def)
  show "case deserialize buffer None of Inl e \<Rightarrow> True | Inr f \<Rightarrow> message_index (f_message f) \<noteq> 0"
    by (auto simp: deserialize_def split: sum.splits prod.splits
        dest: deserialize_Frame_no_context [OF ctx])
next
  show "deserialize empty_data_bytes None = Inl MissingConfig"
    by (simp add: deserialize_defs empty_data_bytes_def)
qed

text \<open>
  Claim C5.  The trailing checksum of a serialised frame is claimed to be the
  CRC-CCITT-false of all bytes before it.  The code calculates it over the last \<open>size\<close>
  bytes before the cursor, where \<open>size\<close> adds up the results of the serialisers; the
  loops over vectors return \<open>ok()\<close> and \<open>serialize(Command const *)\<close> returns the
  result for the extension only, so \<open>size\<close> falls short of the bytes written.  The
  command frame has 16 bytes before the checksum \<open>0xCD23\<close>, which is the checksum of
  the 14 from the third on, while that of all 16 is \<open>0xDBB5\<close>.  The data frame has 42
  bytes before the checksum \<open>0x17BB\<close>, which is the checksum of the last 14, while
  that of all 42 is \<open>0x8C56\<close>.  The deserialiser does what the claim says: it accepts
  the command frame whose checksum is that of all 16 bytes before it, and refuses the same
  bytes with another checksum as invalid.
\<close>

theorem serialize_crc_not_over_frame:
  "serialize (replicate 32 0) None command_frame = Inr command_bytes \<and>
   length command_bytes = 18 \<and>
   ntohs (drop 16 command_bytes) = 0xCD23 \<and>
   calculate_crc (take 16 command_bytes) 16 = 0xDBB5 \<and>
   calculate_crc (drop 2 (take 16 command_bytes)) 14 = 0xCD23 \<and>
   serialize (replicate 64 0) (Some two_pmus) data_frame = Inr data_bytes \<and>
   length data_bytes = 44 \<and>
   ntohs (drop 42 data_bytes) = 0x17BB \<and>
   calculate_crc (take 42 data_bytes) 42 = 0x8C56 \<and>
   calculate_crc (drop 28 (take 42 data_bytes)) 14 = 0x17BB \<and>
   deserialize command_wire None = Inr command_frame \<and>
   ntohs (drop 16 command_wire) = calculate_crc (take 16 command_wire) 16 \<and>
   deserialize (take 16 command_wire @ [0x1F, 0xF8]) None = Inl InvalidChecksum"
proof (intro conjI)
  show "deserialize command_wire None = Inr command_frame"
    by (rule deserialize_command_wire)
  show "ntohs (drop 16 command_wire) = calculate_crc (take 16 command_wire) 16"
    by (simp add: command_wire_def calculate_crc_def crc_step_def ntohs_def)
  show "deserialize (take 16 command_wire @ [0x1F, 0xF8]) None = Inl InvalidChecksum"
    by (simp add: deserialize_defs command_wire_def)
  show "serialize (replicate 32 0) None command_frame = Inr command_bytes"
    by (rule serialize_command_frame)
  show "serialize (replicate 64 0) (Some two_pmus) data_frame = Inr data_bytes"
    by (rule serialize_data_frame)
  show "length command_bytes = 18"
    by (simp add: command_bytes_def)
  show "ntohs (drop 16 command_bytes) = 0xCD23"
    by (simp add: command_bytes_def ntohs_def)
  show "calculate_crc (take 16 command_bytes) 16 = 0xDBB5"
    by (simp add: command_bytes_def calculate_crc_def crc_step_def)
  show "calculate_crc (drop 2 (take 16 command_bytes)) 14 = 0xCD23"
    by (simp add: command_bytes_def calculate_crc_def crc_step_def)
  show "length data_bytes = 44"
    by (simp add: data_bytes_def)
  show "ntohs (drop 42 data_bytes) = 0x17BB"
    by (simp add: data_bytes_def ntohs_def)
  show "calculate_crc (take 42 data_bytes) 42 = 0x8C56"
    by (simp add: data_bytes_def calculate_crc_def crc_step_def)
  show "calculate_crc (drop 28 (take 42 data_bytes)) 14 = 0x17BB"
    by (simp add: data_bytes_def calculate_crc_def crc_step_def)
qed

text \<open>
  Claim C4.  Deserialising the bytes of a serialised frame is claimed to give the frame
  back, for every message type, the two directions agreeing on the frame type in the
  sync word.  They do not agree: the serialiser writes \<open>0x50\<close> for a command and
  \<open>0x40\<close> for a config-3 frame, the deserialiser reads \<open>0x40\<close> as a command and
  \<open>0x50\<close> as config-3.  The bytes of the command frame are refused with a bad
  checksum; those of the data frame carry a frame size that leaves out the PMUs and are
  refused with missing bytes.  The bytes that are read as the command frame have
  frame type \<open>0x40\<close>, and are not the bytes written for it.
\<close>

theorem deserialize_serialize_not_inverse:
  "serialize_type (message_index (Command cmd ext)) = Some 0x50 \<and>
   deserialize_type 0x50 = Some Config3 \<and>
   serialize_type (message_index Config3) = Some 0x40 \<and>
   deserialize_type 0x40 = Some (Command 0 []) \<and>
   serialize (replicate 32 0) None command_frame = Inr command_bytes \<and>
   deserialize command_bytes None = Inl InvalidChecksum \<and>
   serialize (replicate 64 0) (Some two_pmus) data_frame = Inr data_bytes \<and>
   deserialize data_bytes (Some two_pmus) = Inl MissingBytes \<and>
   deserialize command_wire None = Inr command_frame \<and>
   command_wire \<noteq> command_bytes"
proof (intro conjI)
  show "deserialize command_wire None = Inr command_frame"
    by (rule deserialize_command_wire)
  show "command_wire \<noteq> command_bytes"
    by (simp add: command_wire_def command_bytes_def)
  show "serialize_type (message_index (Command cmd ext)) = Some 0x50"
    by (simp add: serialize_type_def)
  show "deserialize_type 0x50 = Some Config3"
    by (simp add: deserialize_type_def)
  show "serialize_type (message_index Config3) = Some 0x40"
    by (simp add: serialize_type_def)
  show "deserialize_type 0x40 = Some (Command 0 [])"
    by (simp add: deserialize_type_def)
  show "serialize (replicate 32 0) None command_frame = Inr command_bytes"
    by (rule serialize_command_frame)
  show "deserialize command_bytes None = Inl InvalidChecksum"
    by (simp add: deserialize_defs command_bytes_def)
  show "serialize (replicate 64 0) (Some two_pmus) data_frame = Inr data_bytes"
    by (rule serialize_data_frame)
  show "deserialize data_bytes (Some two_pmus) = Inl MissingBytes"
    by (simp add: deserialize_defs data_bytes_def two_pmus_def pmu_one_def)
qed

end
